theory Spec2Isabelle
  imports Main
begin

unbundle bit_operations_syntax

section \<open>Python strings and integers used by the assembler and the CPU\<close>

text \<open>
  Strings are ASCII character lists. \<open>py_isspace\<close> is \<^verbatim>\<open>str.isspace\<close> on one character, the
  whitespace of \<^verbatim>\<open>str.strip\<close>, \<^verbatim>\<open>str.split\<close> and the pattern \<^verbatim>\<open>\s\<close>. The helpers below model the Python built-ins the
  source calls (\<^verbatim>\<open>str.strip\<close>, \<^verbatim>\<open>str.lower\<close>, \<^verbatim>\<open>str.upper\<close>, \<^verbatim>\<open>str.isdigit\<close>,
  \<^verbatim>\<open>str.split\<close>, \<^verbatim>\<open>int(s)\<close>, \<^verbatim>\<open>int(s, 16)\<close>, \<^verbatim>\<open>str(n)\<close>, \<^verbatim>\<open>format(n, '04X')\<close>) on
  ASCII input. Python integers are unbounded: they are \<^typ>\<open>int\<close>, and \<^verbatim>\<open>&\<close>, \<^verbatim>\<open>|\<close>,
  \<^verbatim>\<open>>>\<close>, \<^verbatim>\<open><<\<close> are \<open>AND\<close>, \<open>OR\<close>, \<open>drop_bit\<close>, \<open>push_bit\<close> on \<^typ>\<open>int\<close>
  (two's complement with infinitely many sign bits, as in Python).
\<close>

definition py_isspace :: "char \<Rightarrow> bool" where
  "py_isspace c = (let n = of_char c :: nat in (9 \<le> n \<and> n \<le> 13) \<or> (28 \<le> n \<and> n \<le> 32))"

text \<open>The whitespace \<^verbatim>\<open>int(s, base)\<close> skips around the digits of an ASCII string (C's
  \<^verbatim>\<open>isspace\<close>): unlike \<^verbatim>\<open>str.strip\<close>, it does not skip the separators 28 to 31.\<close>

definition c_isspace :: "char \<Rightarrow> bool" where
  "c_isspace c = (let n = of_char c :: nat in (9 \<le> n \<and> n \<le> 13) \<or> n = 32)"

definition is_digit :: "char \<Rightarrow> bool" where
  "is_digit c = (let n = of_char c :: nat in 48 \<le> n \<and> n \<le> 57)"

definition lower_char :: "char \<Rightarrow> char" where
  "lower_char c = (let n = of_char c :: nat in if 65 \<le> n \<and> n \<le> 90 then char_of (n + 32) else c)"

definition upper_char :: "char \<Rightarrow> char" where
  "upper_char c = (let n = of_char c :: nat in if 97 \<le> n \<and> n \<le> 122 then char_of (n - 32) else c)"

definition lower :: "string \<Rightarrow> string" where
  "lower s = map lower_char s"

definition upper :: "string \<Rightarrow> string" where
  "upper s = map upper_char s"

definition lstrip :: "string \<Rightarrow> string" where
  "lstrip s = dropWhile py_isspace s"

definition strip :: "string \<Rightarrow> string" where
  "strip s = rev (dropWhile py_isspace (rev (dropWhile py_isspace s)))"

text \<open>\<^verbatim>\<open>s.isdigit()\<close>: every character is a digit and there is at least one.\<close>

definition isdigit :: "string \<Rightarrow> bool" where
  "isdigit s = (s \<noteq> [] \<and> list_all is_digit s)"

text \<open>\<^verbatim>\<open>s.startswith(p)\<close>.\<close>

definition startswith :: "string \<Rightarrow> string \<Rightarrow> bool" where
  "startswith s p = (take (length p) s = p)"

text \<open>The value of a character as a digit (CPython's digit table): \<open>0-9\<close>, \<open>a-z\<close>, \<open>A-Z\<close>.\<close>

definition digit_value :: "char \<Rightarrow> nat option" where
  "digit_value c = (let n = of_char c :: nat in
     if 48 \<le> n \<and> n \<le> 57 then Some (n - 48)
     else if 97 \<le> n \<and> n \<le> 122 then Some (n - 87)
     else if 65 \<le> n \<and> n \<le> 90 then Some (n - 55)
     else None)"

text \<open>
  The digit scan of \<^verbatim>\<open>int(s, base)\<close>: digits below the base, single underscores between
  digits. \<open>prev_us\<close> says that the previous character was an underscore, \<open>cnt\<close> counts the
  digits read. The result is the value read and the unread rest; \<open>None\<close> is ValueError.
\<close>

fun scan_digits :: "nat \<Rightarrow> bool \<Rightarrow> nat \<Rightarrow> nat \<Rightarrow> string \<Rightarrow> (nat \<times> string) option" where
  "scan_digits base prev_us cnt acc [] =
     (if prev_us \<or> cnt = 0 then None else Some (acc, []))"
| "scan_digits base prev_us cnt acc (c # cs) =
     (if c = CHR ''_'' then
        (if prev_us then None else scan_digits base True cnt acc cs)
      else (case digit_value c of
          Some d \<Rightarrow>
            (if d < base then scan_digits base False (Suc cnt) (acc * base + d) cs
             else if prev_us \<or> cnt = 0 then None else Some (acc, c # cs))
        | None \<Rightarrow> (if prev_us \<or> cnt = 0 then None else Some (acc, c # cs))))"

text \<open>
  \<^verbatim>\<open>int(s, base)\<close> for base 10 and 16: leading whitespace, an optional sign, for base 16
  an optional \<^verbatim>\<open>0x\<close> prefix (one underscore may follow it), the digits, trailing
  whitespace. \<open>None\<close> is ValueError.
\<close>

definition py_int :: "nat \<Rightarrow> string \<Rightarrow> int option" where
  "py_int base s =
     (let s1 = dropWhile c_isspace s;
          neg = (case s1 of c # _ \<Rightarrow> c = CHR ''-'' | [] \<Rightarrow> False);
          s2 = (case s1 of c # r \<Rightarrow> if c = CHR ''+'' \<or> c = CHR ''-'' then r else s1 | [] \<Rightarrow> s1);
          s3 = (case s2 of
                  a # b # r \<Rightarrow>
                    if a = CHR ''0'' \<and> base = 16 \<and> (b = CHR ''x'' \<or> b = CHR ''X'')
                    then (case r of u # r' \<Rightarrow> if u = CHR ''_'' then r' else r | [] \<Rightarrow> r)
                    else s2
                | _ \<Rightarrow> s2)
      in case s3 of
           [] \<Rightarrow> None
         | c # _ \<Rightarrow>
             if c = CHR ''_'' then None
             else (case scan_digits base False 0 0 s3 of
                     None \<Rightarrow> None
                   | Some (n, rest) \<Rightarrow>
                       if list_all c_isspace rest
                       then Some (if neg then - int n else int n)
                       else None))"

text \<open>\<^verbatim>\<open>str(n)\<close> for an integer: decimal digits, with a minus sign when negative.\<close>

definition digit_char :: "nat \<Rightarrow> char" where
  "digit_char d = char_of (48 + d)"

function str_nat :: "nat \<Rightarrow> string" where
  "str_nat n = (if n < 10 then [digit_char n] else str_nat (n div 10) @ [digit_char (n mod 10)])"
  by pat_completeness auto
termination
  by (relation "measure (\<lambda>n. n)") auto

declare str_nat.simps [simp del]

definition str_int :: "int \<Rightarrow> string" where
  "str_int i = (if i < 0 then CHR ''-'' # str_nat (nat (- i)) else str_nat (nat i))"

text \<open>\<^verbatim>\<open>format(n, '04X')\<close>: upper-case hexadecimal, zero-padded to four characters (the sign
  counts as one of them).\<close>

definition hex_char :: "nat \<Rightarrow> char" where
  "hex_char d = (if d < 10 then char_of (48 + d) else char_of (55 + d))"

function hex_nat :: "nat \<Rightarrow> string" where
  "hex_nat n = (if n < 16 then [hex_char n] else hex_nat (n div 16) @ [hex_char (n mod 16)])"
  by pat_completeness auto
termination
  by (relation "measure (\<lambda>n. n)") auto

declare hex_nat.simps [simp del]

definition zfill :: "nat \<Rightarrow> string \<Rightarrow> string" where
  "zfill w s = replicate (w - length s) (CHR ''0'') @ s"

definition format_04X :: "int \<Rightarrow> string" where
  "format_04X n = (if n < 0 then CHR ''-'' # zfill 3 (hex_nat (nat (- n)))
                   else zfill 4 (hex_nat (nat n)))"

section \<open>The disassembler (assembler.py)\<close>

text \<open>\<^verbatim>\<open>R_TYPE_FUNCT\<close> and \<^verbatim>\<open>I_TYPE_OPCODES\<close> inverted, with the default \<^verbatim>\<open>'???'\<close> of
  \<^verbatim>\<open>dict.get\<close>.\<close>

definition funct_to_instr :: "int \<Rightarrow> string" where
  "funct_to_instr funct =
     (if funct = 0 then ''ADD'' else if funct = 1 then ''SUB'' else if funct = 2 then ''AND''
      else if funct = 3 then ''OR'' else if funct = 4 then ''SLT'' else if funct = 5 then ''JR''
      else ''???'')"

definition opcode_to_instr :: "int \<Rightarrow> string" where
  "opcode_to_instr opcode =
     (if opcode = 1 then ''LW'' else if opcode = 2 then ''SW'' else if opcode = 3 then ''ADDI''
      else if opcode = 4 then ''SUBI'' else if opcode = 5 then ''SLTI''
      else if opcode = 6 then ''BEQ'' else if opcode = 7 then ''BNQ''
      else if opcode = 8 then ''ANDI'' else ''???'')"

text \<open>\<^verbatim>\<open>disassemble(hex_code)\<close>.\<close>

definition disassemble :: "string \<Rightarrow> string" where
  "disassemble hex_code =
     (case py_int 16 hex_code of
        None \<Rightarrow> ''???''
      | Some code \<Rightarrow>
          let opcode = drop_bit 12 code AND 0xF in
          if opcode = 0 then
            (let rs = drop_bit 9 code AND 0x7;
                 rt = drop_bit 6 code AND 0x7;
                 rd = drop_bit 3 code AND 0x7;
                 funct = code AND 0x7;
                 instr = funct_to_instr funct
             in if instr = ''JR'' then ''JR $r'' @ str_int rs
                else instr @ '' $r'' @ str_int rd @ '', $r'' @ str_int rs @ '', $r'' @ str_int rt)
          else if opcode = 9 \<or> opcode = 10 then
            (let address = code AND 0xFFF;
                 instr = (if opcode = 9 then ''JUMP'' else ''JAL'')
             in instr @ '' '' @ str_int address)
          else
            (let rs = drop_bit 9 code AND 0x7;
                 rt = drop_bit 6 code AND 0x7;
                 imm0 = code AND 0x3F;
                 imm = (if imm0 AND 0x20 \<noteq> 0 then imm0 - 64 else imm0);
                 instr = opcode_to_instr opcode
             in if instr = ''LW'' \<or> instr = ''SW'' then
                  instr @ '' $r'' @ str_int rt @ '', '' @ str_int imm @ ''($r'' @ str_int rs @ '')''
                else if instr = ''BEQ'' \<or> instr = ''BNQ'' then
                  instr @ '' $r'' @ str_int rs @ '', $r'' @ str_int rt @ '', '' @ str_int imm
                else
                  instr @ '' $r'' @ str_int rt @ '', $r'' @ str_int rs @ '', '' @ str_int imm))"

section \<open>The CPU state (cpu.py, class MIPS\_CPU)\<close>

text \<open>
  Each pipeline latch is a Python dict with a fixed key set; it is a record here. The four
  latches share key names (\<^verbatim>\<open>instruction\<close>, \<^verbatim>\<open>pc\<close>, \<^verbatim>\<open>valid\<close>, ...), so the fields carry
  the prefix of their latch: \<open>ii_\<close> for IF/ID, \<open>ie_\<close> for ID/EX, \<open>em_\<close> for EX/MEM and
  \<open>mw_\<close> for MEM/WB. \<^verbatim>\<open>None\<close> in the \<^verbatim>\<open>instruction\<close> slot is \<open>None\<close>.
\<close>

datatype alu_op = NOP | ADD | SUB | AND_op | OR_op | SLT | ADDI | SUBI | SLTI | ANDI
  | JAL | JR | JUMP | BEQ | BNQ | LW | SW

record if_id =
  ii_instruction :: "string option"
  ii_pc :: int
  ii_valid :: bool

record id_ex =
  ie_instruction :: "string option"
  ie_pc :: int
  ie_opcode :: int
  ie_rs :: int
  ie_rt :: int
  ie_rd :: int
  ie_funct :: int
  ie_imm :: int
  ie_address :: int
  ie_rs_val :: int
  ie_rt_val :: int
  ie_reg_write :: bool
  ie_mem_read :: bool
  ie_mem_write :: bool
  ie_mem_to_reg :: bool
  ie_branch :: bool
  ie_jump :: bool
  ie_alu_op :: alu_op
  ie_valid :: bool

record ex_mem =
  em_instruction :: "string option"
  em_pc :: int
  em_alu_result :: int
  em_rt_val :: int
  em_rd :: int
  em_reg_write :: bool
  em_mem_read :: bool
  em_mem_write :: bool
  em_mem_to_reg :: bool
  em_valid :: bool

record mem_wb =
  mw_instruction :: "string option"
  mw_pc :: int
  mw_alu_result :: int
  mw_mem_data :: int
  mw_rd :: int
  mw_reg_write :: bool
  mw_mem_to_reg :: bool
  mw_valid :: bool

text \<open>The observability records: the dicts stored in \<^verbatim>\<open>forward_a\<close>/\<^verbatim>\<open>forward_b\<close>,
  \<^verbatim>\<open>stall_info\<close>, \<^verbatim>\<open>memory_warning\<close> and \<^verbatim>\<open>control_hazard\<close>, and the entries of the
  histories.\<close>

record forward_rec =
  fw_source :: string
  fw_reg :: string
  fw_value :: int

record stall_rec =
  si_type :: string
  si_hazard_type :: string
  si_waiting_reg :: string
  si_waiting_for :: string
  si_blocked_instr :: string
  si_reason :: string

record warning_rec =
  mwarn_type :: string
  mwarn_address :: int
  mwarn_instruction :: "string option"
  mwarn_message :: string

record hazard_rec =
  ch_type :: string
  ch_hazard_type :: string
  ch_flushed_instruction :: string
  ch_target_address :: "int option"
  ch_reason :: string

record cycle_snapshot =
  cs_cycle :: int
  cs_IF :: "string option"
  cs_IF_PC :: "int option"
  cs_ID :: "string option"
  cs_ID_PC :: int
  cs_EX :: "string option"
  cs_EX_PC :: int
  cs_MEM :: "string option"
  cs_MEM_PC :: int
  cs_WB :: "string option"
  cs_WB_PC :: "int option"

record forward_entry =
  fe_cycle :: int
  fe_forward_a :: "forward_rec option"
  fe_forward_b :: "forward_rec option"

record cpu =
  pc :: int
  registers :: "int list"
  instruction_memory :: "string list"
  data_memory :: "int \<rightharpoonup> int"
  cycle :: int
  IF_ID :: if_id
  ID_EX :: id_ex
  EX_MEM :: ex_mem
  MEM_WB :: mem_wb
  stall :: bool
  flush_if :: bool
  flush_id :: bool
  halted :: bool
  forward_a :: "forward_rec option"
  forward_b :: "forward_rec option"
  stall_info :: "stall_rec option"
  memory_warning :: "warning_rec option"
  control_hazard :: "hazard_rec option"
  flush_occurred :: bool
  if_id_was_held :: bool
  pipeline_history :: "cycle_snapshot list"
  stall_history :: "int list"
  forward_history :: "forward_entry list"
  flush_count :: int
  seen_in_if :: "(int \<times> string) set"
  seen_in_wb :: "(int \<times> string) set"

definition empty_if_id :: if_id where
  "empty_if_id = \<lparr>ii_instruction = None, ii_pc = 0, ii_valid = False\<rparr>"

definition empty_id_ex :: id_ex where
  "empty_id_ex = \<lparr>ie_instruction = None, ie_pc = 0, ie_opcode = 0, ie_rs = 0, ie_rt = 0,
     ie_rd = 0, ie_funct = 0, ie_imm = 0, ie_address = 0, ie_rs_val = 0, ie_rt_val = 0,
     ie_reg_write = False, ie_mem_read = False, ie_mem_write = False, ie_mem_to_reg = False,
     ie_branch = False, ie_jump = False, ie_alu_op = NOP, ie_valid = False\<rparr>"

definition empty_ex_mem :: ex_mem where
  "empty_ex_mem = \<lparr>em_instruction = None, em_pc = 0, em_alu_result = 0, em_rt_val = 0,
     em_rd = 0, em_reg_write = False, em_mem_read = False, em_mem_write = False,
     em_mem_to_reg = False, em_valid = False\<rparr>"

definition empty_mem_wb :: mem_wb where
  "empty_mem_wb = \<lparr>mw_instruction = None, mw_pc = 0, mw_alu_result = 0, mw_mem_data = 0,
     mw_rd = 0, mw_reg_write = False, mw_mem_to_reg = False, mw_valid = False\<rparr>"

text \<open>\<^verbatim>\<open>reset()\<close> overwrites every attribute, the instruction memory included.\<close>

definition reset :: cpu where
  "reset = \<lparr>pc = 0, registers = replicate 8 0, instruction_memory = [], data_memory = Map.empty,
     cycle = 0, IF_ID = empty_if_id, ID_EX = empty_id_ex, EX_MEM = empty_ex_mem,
     MEM_WB = empty_mem_wb, stall = False, flush_if = False, flush_id = False, halted = False,
     forward_a = None, forward_b = None, stall_info = None, memory_warning = None,
     control_hazard = None, flush_occurred = False, if_id_was_held = False,
     pipeline_history = [], stall_history = [], forward_history = [], flush_count = 0,
     seen_in_if = {}, seen_in_wb = {}\<rparr>"

definition load_program :: "string list \<Rightarrow> cpu" where
  "load_program machine_codes = reset\<lparr>instruction_memory := machine_codes\<rparr>"

section \<open>The pipeline stages\<close>

text \<open>
  A method that mutates \<^verbatim>\<open>self\<close> takes the state and returns the new one, next to its
  return value. The only exception a stage can raise from decoded latches is the
  IndexError of the fetch \<^verbatim>\<open>self.instruction_memory[self.pc]\<close>, where \<^verbatim>\<open>self.pc\<close> may be
  negative after a backward branch: a Python list accepts the indices
  \<open>- len \<le> i < len\<close>, the negative ones counting from the end.
\<close>

datatype error = IndexError

text \<open>Truth value of \<^verbatim>\<open>if x:\<close> for a string or \<^verbatim>\<open>None\<close>.\<close>

definition truthy :: "string option \<Rightarrow> bool" where
  "truthy x = (case x of None \<Rightarrow> False | Some v \<Rightarrow> v \<noteq> [])"

definition alu_add :: "int \<Rightarrow> int \<Rightarrow> int" where
  "alu_add a b = (a + b) AND 0xFFFF"

definition alu_sub :: "int \<Rightarrow> int \<Rightarrow> int" where
  "alu_sub a b = (a - b) AND 0xFFFF"

definition signed :: "int \<Rightarrow> int" where
  "signed val = (if val AND 0x8000 \<noteq> 0 then val - 0x10000 else val)"

definition stage_wb :: "mem_wb \<Rightarrow> cpu \<Rightarrow> cpu" where
  "stage_wb mw s =
     (if \<not> mw_valid mw then s
      else if mw_reg_write mw \<and> mw_rd mw \<noteq> 0 then
        (if mw_mem_to_reg mw
         then s\<lparr>registers := (registers s)[nat (mw_rd mw) := mw_mem_data mw AND 0xFFFF]\<rparr>
         else s\<lparr>registers := (registers s)[nat (mw_rd mw) := mw_alu_result mw AND 0xFFFF]\<rparr>)
      else s)"

definition stage_mem :: "ex_mem \<Rightarrow> cpu \<Rightarrow> mem_wb \<times> cpu" where
  "stage_mem em s =
     (if \<not> em_valid em then (empty_mem_wb, s)
      else
        let result = empty_mem_wb\<lparr>mw_instruction := em_instruction em, mw_pc := em_pc em,
              mw_valid := True, mw_alu_result := em_alu_result em, mw_rd := em_rd em,
              mw_reg_write := em_reg_write em, mw_mem_to_reg := em_mem_to_reg em\<rparr>;
            addr = em_alu_result em AND 0xFFFF
        in if em_mem_read em then
             (let s' = (if data_memory s addr = None
                        then s\<lparr>memory_warning := Some \<lparr>mwarn_type = ''Uninitialized Memory'',
                               mwarn_address = addr, mwarn_instruction = em_instruction em,
                               mwarn_message = ''Reading from uninitialized address ''
                                  @ str_int addr @ '' (returns 0)''\<rparr>\<rparr>
                        else s)
              in (result\<lparr>mw_mem_data := (case data_memory s addr of None \<Rightarrow> 0 | Some v \<Rightarrow> v)\<rparr>, s'))
           else if em_mem_write em then
             (result, s\<lparr>data_memory := (data_memory s)(addr \<mapsto> em_rt_val em AND 0xFFFF)\<rparr>)
           else (result, s))"

text \<open>The value a MEM/WB latch writes back.\<close>

definition write_data :: "mem_wb \<Rightarrow> int" where
  "write_data mw = (if mw_mem_to_reg mw then mw_mem_data mw else mw_alu_result mw)"

text \<open>The ALU of the execute stage: the \<^verbatim>\<open>if\<close>/\<^verbatim>\<open>elif\<close> chain on \<^verbatim>\<open>alu_op\<close>. Decode never
  produces \<open>LW\<close> or \<open>SW\<close> as an ALU operation (loads and stores carry \<open>ADDI\<close>).\<close>

definition alu :: "alu_op \<Rightarrow> int \<Rightarrow> int \<Rightarrow> int \<Rightarrow> int \<Rightarrow> int" where
  "alu op rs_val rt_val imm id_rs_val =
     (case op of
        ADD \<Rightarrow> alu_add rs_val rt_val
      | SUB \<Rightarrow> alu_sub rs_val rt_val
      | AND_op \<Rightarrow> rs_val AND rt_val
      | OR_op \<Rightarrow> rs_val OR rt_val
      | SLT \<Rightarrow> (if signed rs_val < signed rt_val then 1 else 0)
      | ADDI \<Rightarrow> alu_add rs_val imm
      | SUBI \<Rightarrow> alu_sub rs_val imm
      | SLTI \<Rightarrow> (if signed rs_val < imm then 1 else 0)
      | ANDI \<Rightarrow> rs_val AND (imm AND 0x3F)
      | JAL \<Rightarrow> id_rs_val
      | LW \<Rightarrow> alu_add rs_val imm
      | SW \<Rightarrow> alu_add rs_val imm
      | _ \<Rightarrow> 0)"

text \<open>
  \<^verbatim>\<open>_stage_ex\<close> reads and writes \<^verbatim>\<open>self.forward_a\<close> and \<^verbatim>\<open>self.forward_b\<close> and nothing
  else of the state: \<open>execute\<close> computes the new latch and the two records from the
  latches and the records on entry (\<open>fa0\<close>, \<open>fb0\<close>), and \<open>stage_ex\<close> writes them. The
  source assigns \<^verbatim>\<open>rs_val\<close>, \<^verbatim>\<open>rt_val\<close> and the two records twice in sequence (EX/MEM
  block, then MEM/WB block); here each intermediate value has its own name (\<open>fa1\<close> is
  \<^verbatim>\<open>self.forward_a\<close> after the EX/MEM block). \<^verbatim>\<open>not isinstance(self.forward_a, dict)\<close> is
  \<open>fa1 = None\<close>.
\<close>

definition execute :: "id_ex \<Rightarrow> ex_mem \<Rightarrow> mem_wb \<Rightarrow> forward_rec option \<Rightarrow> forward_rec option
    \<Rightarrow> ex_mem \<times> forward_rec option \<times> forward_rec option" where
  "execute ie em mw fa0 fb0 =
     (if \<not> ie_valid ie then (empty_ex_mem, fa0, fb0)
      else
        let result = empty_ex_mem\<lparr>em_instruction := ie_instruction ie, em_pc := ie_pc ie,
              em_valid := True, em_rd := ie_rd ie, em_reg_write := ie_reg_write ie,
              em_mem_read := ie_mem_read ie, em_mem_write := ie_mem_write ie,
              em_mem_to_reg := ie_mem_to_reg ie\<rparr>;
            ex_fwd = (em_valid em \<and> em_reg_write em \<and> em_rd em \<noteq> 0);
            ex_rec = \<lparr>fw_source = ''EX_MEM'', fw_reg = ''$r'' @ str_int (em_rd em),
                       fw_value = em_alu_result em\<rparr>;
            rs_val1 = (if ex_fwd \<and> ie_rs ie = em_rd em then em_alu_result em else ie_rs_val ie);
            fa1 = (if ex_fwd \<and> ie_rs ie = em_rd em then Some ex_rec else fa0);
            rt_val1 = (if ex_fwd \<and> ie_rt ie = em_rd em then em_alu_result em else ie_rt_val ie);
            fb1 = (if ex_fwd \<and> ie_rt ie = em_rd em then Some ex_rec else fb0);
            wb_fwd = (mw_valid mw \<and> mw_reg_write mw \<and> mw_rd mw \<noteq> 0);
            wb_rec = \<lparr>fw_source = ''MEM_WB'', fw_reg = ''$r'' @ str_int (mw_rd mw),
                       fw_value = write_data mw\<rparr>;
            rs_val = (if wb_fwd \<and> ie_rs ie = mw_rd mw \<and> fa1 = None then write_data mw
                      else rs_val1);
            fa = (if wb_fwd \<and> ie_rs ie = mw_rd mw \<and> fa1 = None then Some wb_rec else fa1);
            rt_val = (if wb_fwd \<and> ie_rt ie = mw_rd mw \<and> fb1 = None then write_data mw
                      else rt_val1);
            fb = (if wb_fwd \<and> ie_rt ie = mw_rd mw \<and> fb1 = None then Some wb_rec else fb1)
        in (result\<lparr>em_rt_val := rt_val,
                   em_alu_result := alu (ie_alu_op ie) rs_val rt_val (ie_imm ie) (ie_rs_val ie)\<rparr>,
            fa, fb))"

definition stage_ex :: "id_ex \<Rightarrow> ex_mem \<Rightarrow> mem_wb \<Rightarrow> cpu \<Rightarrow> ex_mem \<times> cpu" where
  "stage_ex ie em mw s =
     (case execute ie em mw (forward_a s) (forward_b s) of
        (result, fa, fb) \<Rightarrow> (result, s\<lparr>forward_a := fa, forward_b := fb\<rparr>))"

text \<open>\<^verbatim>\<open>self.instruction_memory[self.pc]\<close> under the guard \<^verbatim>\<open>self.pc < len(...)\<close>.\<close>

definition stage_if :: "cpu \<Rightarrow> error + (if_id \<times> cpu)" where
  "stage_if s =
     (let n = int (length (instruction_memory s)) in
      if pc s < n then
        (if 0 \<le> pc s then
           Inr (\<lparr>ii_instruction = Some (instruction_memory s ! nat (pc s)), ii_pc = pc s,
                 ii_valid = True\<rparr>, s\<lparr>pc := pc s + 1\<rparr>)
         else if - n \<le> pc s then
           Inr (\<lparr>ii_instruction = Some (instruction_memory s ! nat (n + pc s)), ii_pc = pc s,
                 ii_valid = True\<rparr>, s\<lparr>pc := pc s + 1\<rparr>)
         else Inl IndexError)
      else Inr (empty_if_id, s))"

subsection \<open>Decode\<close>

text \<open>
  \<^verbatim>\<open>_stage_id\<close> reads the register file and the three later latches of \<^verbatim>\<open>self\<close>, and
  writes the state in four places only, each time \<^verbatim>\<open>self.stall = True\<close> together with a
  \<^verbatim>\<open>self.stall_info\<close> dict. The decode functions below take what is read as arguments
  (\<open>regs\<close>, \<open>idex\<close>, \<open>exmem\<close>, \<open>memwb\<close> for \<^verbatim>\<open>self.registers\<close>, \<^verbatim>\<open>self.ID_EX\<close>,
  \<^verbatim>\<open>self.EX_MEM\<close>, \<^verbatim>\<open>self.MEM_WB\<close>) and return, next to the values \<^verbatim>\<open>_stage_id\<close> returns,
  the stall record to be written (\<open>None\<close>: no write); \<open>stage_id\<close> performs the write.
  \<^verbatim>\<open>self.ID_EX.get('disasm', 'LW')\<close> and \<^verbatim>\<open>result.get('disasm', ...)\<close> take their defaults,
  since no latch has a \<^verbatim>\<open>disasm\<close> key.
\<close>

text \<open>Stall case 1: a load in ID/EX whose destination the decoded instruction uses. The
  result is \<^verbatim>\<open>hazard_reg\<close>.\<close>

definition load_use_reg :: "id_ex \<Rightarrow> id_ex \<Rightarrow> string option" where
  "load_use_reg result idex =
     (if ie_valid idex \<and> ie_mem_read idex then
        (let ld_rd = ie_rd idex
         in if ie_rs result = ld_rd \<and> ld_rd \<noteq> 0 then Some ''rs''
            else if ie_rt result = ld_rd \<and> ld_rd \<noteq> 0 \<and> \<not> ie_mem_write result then Some ''rt''
            else None)
      else None)"

text \<open>Stall case 2: a load in EX/MEM whose destination a decoded branch or jump uses.\<close>

definition load_branch_stall :: "id_ex \<Rightarrow> ex_mem \<Rightarrow> bool" where
  "load_branch_stall result exmem =
     (if em_valid exmem \<and> em_mem_to_reg exmem then
        (let ld_rd = em_rd exmem;
             is_branch_or_jump = (ie_branch result \<or> ie_jump result)
         in if is_branch_or_jump \<and> ld_rd \<noteq> 0 then
              (let needs_rs = (ie_rs result = ld_rd);
                   needs_rt = (ie_rt result = ld_rd)
               in needs_rs \<or> needs_rt)
            else False)
      else False)"

text \<open>The tail of \<^verbatim>\<open>_stage_id\<close> (lines 537-581), reached by every decoded instruction that
  has not returned early. Case 2 runs after case 1, so its record overwrites.\<close>

definition hazard_check :: "id_ex \<Rightarrow> id_ex \<Rightarrow> ex_mem \<Rightarrow> stall_rec option" where
  "hazard_check result idex exmem =
     (if load_branch_stall result exmem then
        Some \<lparr>si_type = ''Load-Use Hazard (Branch)'', si_hazard_type = ''RAW'',
               si_waiting_reg = ''$r'' @ str_int (em_rd exmem),
               si_waiting_for = ''LW in MEM stage'', si_blocked_instr = ''Branch/Jump'',
               si_reason = ''Branch needs $r'' @ str_int (em_rd exmem)
                  @ '' from LW still in MEM stage''\<rparr>
      else case load_use_reg result idex of
        None \<Rightarrow> None
      | Some hazard_reg \<Rightarrow>
          Some \<lparr>si_type = ''Load-Use Hazard'', si_hazard_type = ''RAW'',
                 si_waiting_reg = ''$r'' @ str_int (ie_rd idex), si_waiting_for = ''LW'',
                 si_blocked_instr = ''instruction'',
                 si_reason = ''$'' @ hazard_reg @ '' needs $r'' @ str_int (ie_rd idex)
                    @ '' from memory''\<rparr>)"

text \<open>
  The three forwarding steps decode applies to a register value before a branch
  comparison or a JR: MEM/WB (lowest priority), then EX/MEM, then the EX result of this
  same cycle (highest priority); each later assignment overwrites the earlier one.
\<close>

definition id_forward :: "ex_mem \<Rightarrow> mem_wb \<Rightarrow> ex_mem \<Rightarrow> int \<Rightarrow> int \<Rightarrow> int" where
  "id_forward exmem memwb new_ex_mem r v0 =
     (if em_valid new_ex_mem \<and> em_reg_write new_ex_mem \<and> em_rd new_ex_mem \<noteq> 0
         \<and> r = em_rd new_ex_mem
      then em_alu_result new_ex_mem
      else if em_valid exmem \<and> em_reg_write exmem \<and> em_rd exmem \<noteq> 0 \<and> r = em_rd exmem
      then em_alu_result exmem
      else if mw_valid memwb \<and> mw_reg_write memwb \<and> mw_rd memwb \<noteq> 0 \<and> r = mw_rd memwb
      then write_data memwb
      else v0)"

text \<open>The R-type branch of decode. \<open>result0\<close> already holds the instruction, its pc, the
  valid flag and the opcode.\<close>

definition decode_r :: "id_ex \<Rightarrow> int \<Rightarrow> ex_mem \<Rightarrow> int list \<Rightarrow> id_ex \<Rightarrow> ex_mem \<Rightarrow> mem_wb
    \<Rightarrow> (id_ex \<times> bool \<times> int option) \<times> stall_rec option" where
  "decode_r result0 code new_ex_mem regs idex exmem memwb =
     (let rs = drop_bit 9 code AND 0x7;
          rt = drop_bit 6 code AND 0x7;
          rd = drop_bit 3 code AND 0x7;
          funct = code AND 0x7;
          result = result0\<lparr>ie_rs := rs, ie_rt := rt, ie_rd := rd, ie_funct := funct,
                     ie_rs_val := regs ! nat rs, ie_rt_val := regs ! nat rt\<rparr>
      in if funct = 5 then
           (let result = result\<lparr>ie_jump := True, ie_alu_op := JR\<rparr>;
                rs_val_jr = id_forward exmem memwb new_ex_mem rs (regs ! nat rs)
            in if ie_valid idex \<and> ie_mem_read idex \<and> ie_rd idex = rs \<and> rs \<noteq> 0
               then ((result, False, None),
                     Some \<lparr>si_type = ''Load-Use Hazard (JR)'', si_hazard_type = ''RAW'',
                            si_waiting_reg = ''$r'' @ str_int rs, si_waiting_for = ''LW'',
                            si_blocked_instr = ''JR'',
                            si_reason = ''JR needs $r'' @ str_int rs @ '' from memory''\<rparr>)
               else if ie_valid idex \<and> ie_reg_write idex \<and> ie_rd idex = rs \<and> rs \<noteq> 0
               then ((result, False, None),
                     Some \<lparr>si_type = ''Data Hazard (JR)'', si_hazard_type = ''RAW'',
                            si_waiting_reg = ''$r'' @ str_int rs,
                            si_waiting_for = ''instruction'', si_blocked_instr = ''JR'',
                            si_reason = ''JR needs $r'' @ str_int rs
                               @ '' from previous instruction''\<rparr>)
               else ((result, False, Some rs_val_jr), hazard_check result idex exmem))
         else if funct < 5 then
           (let result = result\<lparr>ie_reg_write := True,
                  ie_alu_op := [ADD, SUB, AND_op, OR_op, SLT] ! nat funct\<rparr>
            in ((result, False, None), hazard_check result idex exmem))
         else ((result, False, None), hazard_check result idex exmem))"

text \<open>The J-type branch of decode (opcodes 9 and 10).\<close>

definition decode_j :: "id_ex \<Rightarrow> int \<Rightarrow> int \<Rightarrow> if_id \<Rightarrow> id_ex \<Rightarrow> ex_mem
    \<Rightarrow> (id_ex \<times> bool \<times> int option) \<times> stall_rec option" where
  "decode_j result0 opcode code ifid idex exmem =
     (let address = code AND 0xFFF;
          result = result0\<lparr>ie_address := address, ie_jump := True\<rparr>
      in if opcode = 9 then
           (let result = result\<lparr>ie_alu_op := JUMP\<rparr>
            in ((result, False, Some address), hazard_check result idex exmem))
         else
           (let result = result\<lparr>ie_alu_op := JAL, ie_reg_write := True, ie_rd := 7,
                  ie_rs_val := ii_pc ifid + 1\<rparr>
            in ((result, False, Some address), hazard_check result idex exmem)))"

text \<open>The control signals of the I-type opcodes (lines 503-535); an opcode above 8 sets
  none.\<close>

definition i_controls :: "int \<Rightarrow> id_ex \<Rightarrow> id_ex" where
  "i_controls opcode result =
     (if opcode = 1 then result\<lparr>ie_mem_read := True, ie_mem_to_reg := True,
                           ie_reg_write := True, ie_alu_op := ADDI\<rparr>
      else if opcode = 2 then result\<lparr>ie_mem_write := True, ie_alu_op := ADDI\<rparr>
      else if opcode = 3 then result\<lparr>ie_reg_write := True, ie_alu_op := ADDI\<rparr>
      else if opcode = 4 then result\<lparr>ie_reg_write := True, ie_alu_op := SUBI\<rparr>
      else if opcode = 5 then result\<lparr>ie_reg_write := True, ie_alu_op := SLTI\<rparr>
      else if opcode = 6 then result\<lparr>ie_branch := True, ie_alu_op := BEQ\<rparr>
      else if opcode = 7 then result\<lparr>ie_branch := True, ie_alu_op := BNQ\<rparr>
      else if opcode = 8 then result\<lparr>ie_reg_write := True, ie_alu_op := ANDI\<rparr>
      else result)"

text \<open>The I-type branch of decode (every other opcode). BEQ (6) and BNQ (7) compare the
  forwarded values and set \<^verbatim>\<open>branch_taken\<close> and \<^verbatim>\<open>jump_target\<close>.\<close>

definition decode_i :: "id_ex \<Rightarrow> int \<Rightarrow> int \<Rightarrow> if_id \<Rightarrow> ex_mem \<Rightarrow> int list \<Rightarrow> id_ex \<Rightarrow> ex_mem
    \<Rightarrow> mem_wb \<Rightarrow> (id_ex \<times> bool \<times> int option) \<times> stall_rec option" where
  "decode_i result0 opcode code ifid new_ex_mem regs idex exmem memwb =
     (let rs = drop_bit 9 code AND 0x7;
          rt = drop_bit 6 code AND 0x7;
          imm0 = code AND 0x3F;
          imm = (if imm0 AND 0x20 \<noteq> 0 then imm0 - 64 else imm0);
          result = i_controls opcode
                     (result0\<lparr>ie_rs := rs, ie_rt := rt, ie_rd := rt, ie_imm := imm,
                        ie_rs_val := regs ! nat rs, ie_rt_val := regs ! nat rt\<rparr>);
          rs_val_fwd = id_forward exmem memwb new_ex_mem rs (regs ! nat rs);
          rt_val_fwd = id_forward exmem memwb new_ex_mem rt (regs ! nat rt);
          taken = ((opcode = 6 \<and> rs_val_fwd = rt_val_fwd) \<or> (opcode = 7 \<and> rs_val_fwd \<noteq> rt_val_fwd))
      in if taken then ((result, True, Some (ii_pc ifid + 1 + imm)),
                        hazard_check result idex exmem)
         else ((result, False, None), hazard_check result idex exmem))"

text \<open>\<^verbatim>\<open>_stage_id(if_id, new_ex_mem)\<close> without its writes to \<^verbatim>\<open>self\<close>: the decoded latch, the
  branch-taken flag, the jump target, and the stall record to write. The bare
  \<^verbatim>\<open>except\<close> around \<^verbatim>\<open>int(instruction, 16)\<close> turns an unparsable word into a bubble.\<close>

definition decode :: "if_id \<Rightarrow> ex_mem \<Rightarrow> int list \<Rightarrow> id_ex \<Rightarrow> ex_mem \<Rightarrow> mem_wb
    \<Rightarrow> (id_ex \<times> bool \<times> int option) \<times> stall_rec option" where
  "decode ifid new_ex_mem regs idex exmem memwb =
     (if \<not> ii_valid ifid then ((empty_id_ex, False, None), None)
      else case ii_instruction ifid of
        None \<Rightarrow> ((empty_id_ex, False, None), None)
      | Some instruction \<Rightarrow>
          (case py_int 16 instruction of
             None \<Rightarrow> ((empty_id_ex, False, None), None)
           | Some code \<Rightarrow>
               let opcode = drop_bit 12 code AND 0xF;
                   result = empty_id_ex\<lparr>ie_instruction := Some instruction, ie_pc := ii_pc ifid,
                              ie_valid := True, ie_opcode := opcode\<rparr>
               in if opcode = 0 then decode_r result code new_ex_mem regs idex exmem memwb
                  else if opcode = 9 \<or> opcode = 10 then decode_j result opcode code ifid idex exmem
                  else decode_i result opcode code ifid new_ex_mem regs idex exmem memwb))"

definition stage_id :: "if_id \<Rightarrow> ex_mem \<Rightarrow> cpu \<Rightarrow> (id_ex \<times> bool \<times> int option) \<times> cpu" where
  "stage_id ifid new_ex_mem s =
     (case decode ifid new_ex_mem (registers s) (ID_EX s) (EX_MEM s) (MEM_WB s) of
        (r, None) \<Rightarrow> (r, s)
      | (r, Some info) \<Rightarrow> (r, s\<lparr>stall := True, stall_info := Some info\<rparr>))"

section \<open>One clock cycle\<close>

text \<open>
  \<^verbatim>\<open>step()\<close> is split where the source has its comments: the stages run in reverse order
  (\<open>run_stages\<close>), the control hazard and the stall are handled and the latches committed
  (\<open>commit\<close>), the histories are extended and the halt condition is checked
  (\<open>record_history\<close>). Each part computes the new values of the attributes it assigns and
  writes the state once. The result of \<open>step\<close> is the return value, or the exception
  raised, next to the state the object is left in: when the fetch raises IndexError the
  writes of the earlier stages have already happened.
\<close>

record stage_out =
  old_IF_ID :: if_id
  old_MEM_WB :: mem_wb
  new_MEM_WB :: mem_wb
  new_EX_MEM :: ex_mem
  new_ID_EX :: id_ex
  branch_taken :: bool
  jump_target :: "int option"

text \<open>Lines 146-152: the observability records are cleared.\<close>

definition clear_records :: "cpu \<Rightarrow> cpu" where
  "clear_records s = s\<lparr>forward_a := None, forward_b := None, stall_info := None,
     memory_warning := None, control_hazard := None, flush_occurred := False\<rparr>"

text \<open>Lines 154-165: the old latches are saved and the stages WB, MEM, EX and ID run, each
  on the state its predecessor left.\<close>

definition run_stages :: "cpu \<Rightarrow> stage_out \<times> cpu" where
  "run_stages s0 =
     (let s1 = stage_wb (MEM_WB s0) (clear_records s0);
          m = stage_mem (EX_MEM s0) s1;
          e = stage_ex (ID_EX s0) (EX_MEM s0) (MEM_WB s0) (snd m);
          d = stage_id (IF_ID s0) (fst e) (snd e)
      in (\<lparr>old_IF_ID = IF_ID s0, old_MEM_WB = MEM_WB s0, new_MEM_WB = fst m,
            new_EX_MEM = fst e, new_ID_EX = fst (fst d), branch_taken = fst (snd (fst d)),
            jump_target = snd (snd (fst d))\<rparr>, snd d))"

text \<open>The three characters between \<^verbatim>\<open>taken\<close> and \<^verbatim>\<open>Flushing\<close> in the \<^verbatim>\<open>reason\<close> text of the
  control hazard, as the bytes of the source file.\<close>

definition arrow :: string where
  "arrow = map char_of [0xC3, 0xA2, 0xE2, 0x80, 0xA0, 0xE2, 0x80, 0x99 :: nat]"

text \<open>The \<^verbatim>\<open>control_hazard\<close> dict of lines 184-192.\<close>

definition hazard_record :: "stage_out \<Rightarrow> if_id \<Rightarrow> hazard_rec" where
  "hazard_record out fetched =
     (let hazard_type = (if branch_taken out then ''Branch'' else ''Jump'')
      in \<lparr>ch_type = ''Control Hazard ('' @ hazard_type @ '')'',
           ch_hazard_type = ''Control'',
           ch_flushed_instruction =
             (if truthy (ii_instruction fetched)
              then disassemble (the (ii_instruction fetched)) else ''NOP''),
           ch_target_address = jump_target out,
           ch_reason = hazard_type @ '' taken '' @ arrow @ '' Flushing pipeline''\<rparr>)"

text \<open>Lines 168-236: flush on a taken branch or a jump (\<open>flush\<close>), then the stall, then the
  commit of the four latches and the cycle counter. The stall branch runs after the flush
  branch, so its assignments to \<^verbatim>\<open>new_IF_ID\<close> and \<^verbatim>\<open>self.pc\<close> win. The result also carries
  \<^verbatim>\<open>stall_occurred\<close> and \<^verbatim>\<open>id_stage_instr_for_timeline\<close> for the history.\<close>

definition commit :: "stage_out \<Rightarrow> if_id \<Rightarrow> cpu \<Rightarrow> (bool \<times> string option) \<times> cpu" where
  "commit out fetched s =
     (let id_stage_instr_for_timeline =
            (if ie_valid (new_ID_EX out) then ie_instruction (new_ID_EX out) else None);
          flush = (branch_taken out \<or> jump_target out \<noteq> None);
          stall_occurred = stall s
      in ((stall_occurred, id_stage_instr_for_timeline),
          s\<lparr>control_hazard := (if flush then Some (hazard_record out fetched)
                                else control_hazard s),
            flush_occurred := (if flush then True else flush_occurred s),
            flush_count := (if flush then flush_count s + 1 else flush_count s),
            pc := (if stall s then ii_pc (old_IF_ID out) + 1
                   else if flush then (case jump_target out of Some t \<Rightarrow> t | None \<Rightarrow> pc s)
                   else pc s),
            stall := False,
            if_id_was_held := stall s,
            IF_ID := (if stall s then old_IF_ID out
                      else if flush then empty_if_id else fetched),
            ID_EX := (if stall s then empty_id_ex else new_ID_EX out),
            EX_MEM := new_EX_MEM out,
            MEM_WB := new_MEM_WB out,
            cycle := cycle s + 1\<rparr>))"

text \<open>Lines 238-321: the row of the pipeline history, the stall and forward histories, the
  halt condition and the return value. The state passed in is the committed one.\<close>

definition record_history :: "stage_out \<Rightarrow> bool \<Rightarrow> string option \<Rightarrow> cpu \<Rightarrow> bool \<times> cpu" where
  "record_history out stall_occurred id_stage_instr_for_timeline s =
     (let current_if_pc = ii_pc (IF_ID s);
          current_if_instr = ii_instruction (IF_ID s);
          new_if = (truthy current_if_instr
                      \<and> (current_if_pc, the current_if_instr) \<notin> seen_in_if s);
          current_wb_pc = mw_pc (old_MEM_WB out);
          current_wb_instr =
            (if mw_valid (old_MEM_WB out) then mw_instruction (old_MEM_WB out) else None);
          new_wb = (truthy current_wb_instr
                      \<and> (current_wb_pc, the current_wb_instr) \<notin> seen_in_wb s);
          cycle_snapshot = \<lparr>cs_cycle = cycle s,
             cs_IF = (if new_if then current_if_instr else None),
             cs_IF_PC = (if new_if then Some current_if_pc else None),
             cs_ID = (if stall_occurred then ii_instruction (old_IF_ID out)
                      else if truthy id_stage_instr_for_timeline then id_stage_instr_for_timeline
                      else ie_instruction (ID_EX s)),
             cs_ID_PC = (if stall_occurred then ii_pc (old_IF_ID out)
                      else if truthy id_stage_instr_for_timeline then ii_pc (old_IF_ID out)
                      else ie_pc (ID_EX s)),
             cs_EX = em_instruction (EX_MEM s), cs_EX_PC = em_pc (EX_MEM s),
             cs_MEM = mw_instruction (MEM_WB s), cs_MEM_PC = mw_pc (MEM_WB s),
             cs_WB = (if new_wb then current_wb_instr else None),
             cs_WB_PC = (if new_wb then Some current_wb_pc else None)\<rparr>;
          now_halted = (\<not> ii_valid (IF_ID s) \<and> \<not> ie_valid (ID_EX s) \<and> \<not> em_valid (EX_MEM s)
                  \<and> \<not> mw_valid (MEM_WB s) \<and> pc s \<ge> int (length (instruction_memory s)))
      in (\<not> (now_halted \<or> halted s),
          s\<lparr>seen_in_if := (if new_if then insert (current_if_pc, the current_if_instr) (seen_in_if s)
                           else seen_in_if s),
            seen_in_wb := (if new_wb then insert (current_wb_pc, the current_wb_instr) (seen_in_wb s)
                           else seen_in_wb s),
            pipeline_history := pipeline_history s @ [cycle_snapshot],
            stall_history :=
              (if stall_occurred \<or> (\<not> ie_valid (ID_EX s) \<and> ii_valid (old_IF_ID out))
               then stall_history s @ [cycle s] else stall_history s),
            forward_history :=
              (if forward_a s \<noteq> None \<or> forward_b s \<noteq> None
               then forward_history s @
                      [\<lparr>fe_cycle = cycle s, fe_forward_a = forward_a s,
                        fe_forward_b = forward_b s\<rparr>]
               else forward_history s),
            halted := (now_halted \<or> halted s)\<rparr>))"

definition step :: "cpu \<Rightarrow> (error + bool) \<times> cpu" where
  "step s0 =
     (if halted s0 then (Inr False, s0)
      else
        case stage_if (snd (run_stages s0)) of
          Inl e \<Rightarrow> (Inl e, snd (run_stages s0))
        | Inr (fetched, s) \<Rightarrow>
            let c = commit (fst (run_stages s0)) fetched s;
                h = record_history (fst (run_stages s0)) (fst (fst c)) (snd (fst c)) (snd c)
            in (Inr (fst h), snd h))"

text \<open>\<open>n\<close> calls of \<^verbatim>\<open>step()\<close> on the same object, whatever each call returns or raises.\<close>

fun steps :: "nat \<Rightarrow> cpu \<Rightarrow> cpu" where
  "steps 0 s = s"
| "steps (Suc n) s = steps n (snd (step s))"

section \<open>Invariants of the reachable states\<close>

text \<open>
  The destination index in a latch is produced by decode only (\<^verbatim>\<open>& 0x7\<close>, or the constant
  7 of JAL) and copied down the pipeline, so it stays within the register file: the
  accesses \<^verbatim>\<open>self.registers[...]\<close> never raise and never use a negative index.
\<close>

definition latch_rd_ok :: "cpu \<Rightarrow> bool" where
  "latch_rd_ok s = (0 \<le> ie_rd (ID_EX s) \<and> ie_rd (ID_EX s) \<le> 7
     \<and> 0 \<le> em_rd (EX_MEM s) \<and> em_rd (EX_MEM s) \<le> 7
     \<and> 0 \<le> mw_rd (MEM_WB s) \<and> mw_rd (MEM_WB s) \<le> 7)"

definition reg0_inv :: "cpu \<Rightarrow> bool" where
  "reg0_inv s = (latch_rd_ok s \<and> length (registers s) = 8 \<and> registers s ! 0 = 0)"

text \<open>Every register and every stored data word is a 16-bit unsigned value.\<close>

definition word16_inv :: "cpu \<Rightarrow> bool" where
  "word16_inv s = (list_all (\<lambda>v. 0 \<le> v \<and> v \<le> 65535) (registers s)
     \<and> (\<forall>a v. data_memory s a = Some v \<longrightarrow> 0 \<le> v \<and> v \<le> 65535))"

section \<open>Concrete pipeline states used as examples\<close>

text \<open>The state in which \<^verbatim>\<open>LW $r1, 0($r0)\<close> (word 1040) has just been decoded into ID/EX
  and \<^verbatim>\<open>ADD $r3, $r1, $r1\<close> (word 0258) waits in IF/ID: the third cycle of the program
  made of these two instructions.\<close>

definition lw_in_id_ex :: id_ex where
  "lw_in_id_ex = empty_id_ex\<lparr>ie_instruction := Some ''1040'', ie_pc := 0, ie_valid := True,
     ie_opcode := 1, ie_rs := 0, ie_rt := 1, ie_rd := 1, ie_imm := 0, ie_mem_read := True,
     ie_mem_to_reg := True, ie_reg_write := True, ie_alu_op := ADDI\<rparr>"

definition load_use_state :: cpu where
  "load_use_state = (load_program [''1040'', ''0258''])\<lparr>pc := 2, cycle := 2,
     IF_ID := \<lparr>ii_instruction = Some ''0258'', ii_pc = 1, ii_valid = True\<rparr>,
     ID_EX := lw_in_id_ex\<rparr>"

section \<open>Instruction classes and operand selection, as the specification words them\<close>

text \<open>A 16-bit word that decodes to a non-store, non-branch, non-jump instruction reading
  register \<open>r\<close>: an R-type ALU operation with \<open>rs = r\<close> or \<open>rt = r\<close>, or LW, ADDI, SUBI,
  SLTI, ANDI with \<open>rs = r\<close>.\<close>

definition reg_consumer :: "int \<Rightarrow> int \<Rightarrow> bool" where
  "reg_consumer code r =
     (let opcode = drop_bit 12 code AND 0xF;
          rs = drop_bit 9 code AND 0x7;
          rt = drop_bit 6 code AND 0x7;
          funct = code AND 0x7
      in (opcode = 0 \<and> funct < 5 \<and> (rs = r \<or> rt = r))
         \<or> ((opcode = 1 \<or> opcode = 3 \<or> opcode = 4 \<or> opcode = 5 \<or> opcode = 8) \<and> rs = r))"

text \<open>The same without the load: an ALU-only instruction reading register \<open>r\<close>.\<close>

definition alu_consumer :: "int \<Rightarrow> int \<Rightarrow> bool" where
  "alu_consumer code r =
     (let opcode = drop_bit 12 code AND 0xF;
          rs = drop_bit 9 code AND 0x7;
          rt = drop_bit 6 code AND 0x7;
          funct = code AND 0x7
      in (opcode = 0 \<and> funct < 5 \<and> (rs = r \<or> rt = r))
         \<or> ((opcode = 3 \<or> opcode = 4 \<or> opcode = 5 \<or> opcode = 8) \<and> rs = r))"

text \<open>An ID/EX latch holding a decoded ALU-only instruction (no memory access, no branch,
  no jump) that writes a register.\<close>

definition alu_only :: "id_ex \<Rightarrow> bool" where
  "alu_only ie = (ie_valid ie \<and> ie_reg_write ie \<and> \<not> ie_mem_read ie \<and> \<not> ie_mem_write ie
     \<and> \<not> ie_mem_to_reg ie \<and> \<not> ie_branch ie \<and> \<not> ie_jump ie
     \<and> ie_alu_op ie \<in> {ADD, SUB, AND_op, OR_op, SLT, ADDI, SUBI, SLTI, ANDI})"


text \<open>The operand selection of the execute stage in the specification's words: EX/MEM-old
  first (if it will write the register and \<open>rd \<noteq> 0\<close>), else MEM/WB-old, else the value
  captured at decode.\<close>

definition ex_operand :: "ex_mem \<Rightarrow> mem_wb \<Rightarrow> int \<Rightarrow> int \<Rightarrow> int" where
  "ex_operand em mw reg captured =
     (if em_valid em \<and> em_reg_write em \<and> em_rd em \<noteq> 0 \<and> reg = em_rd em then em_alu_result em
      else if mw_valid mw \<and> mw_reg_write mw \<and> mw_rd mw \<noteq> 0 \<and> reg = mw_rd mw then write_data mw
      else captured)"

text \<open>The values an instruction in ID/EX can receive as operands are 16-bit words.\<close>

definition operands16 :: "cpu \<Rightarrow> bool" where
  "operands16 s = (0 \<le> ie_rs_val (ID_EX s) \<and> ie_rs_val (ID_EX s) \<le> 65535
     \<and> 0 \<le> ie_rt_val (ID_EX s) \<and> ie_rt_val (ID_EX s) \<le> 65535
     \<and> 0 \<le> em_alu_result (EX_MEM s) \<and> em_alu_result (EX_MEM s) \<le> 65535
     \<and> 0 \<le> write_data (MEM_WB s) \<and> write_data (MEM_WB s) \<le> 65535)"


text \<open>The state in which \<^verbatim>\<open>ADDI $r1, $r0, 5\<close> (word 3045) has just been decoded into ID/EX
  and \<^verbatim>\<open>ADD $r3, $r1, $r1\<close> (word 0258) waits in IF/ID.\<close>

definition addi_in_id_ex :: id_ex where
  "addi_in_id_ex = empty_id_ex\<lparr>ie_instruction := Some ''3045'', ie_pc := 0, ie_valid := True,
     ie_opcode := 3, ie_rs := 0, ie_rt := 1, ie_rd := 1, ie_imm := 5, ie_reg_write := True,
     ie_alu_op := ADDI\<rparr>"

definition alu_use_state :: cpu where
  "alu_use_state = (load_program [''3045'', ''0258''])\<lparr>pc := 2, cycle := 2,
     IF_ID := \<lparr>ii_instruction = Some ''0258'', ii_pc = 1, ii_valid = True\<rparr>,
     ID_EX := addi_in_id_ex\<rparr>"

section \<open>The assembler (assembler.py)\<close>

text \<open>
  \<^verbatim>\<open>AssemblerError(message, line_num)\<close> carries the message and the source line number. The
  only other exception \<^verbatim>\<open>encode_instruction\<close> can raise on string operands is the
  ValueError of \<^verbatim>\<open>int(target)\<close> or \<^verbatim>\<open>int(target, 16)\<close> in the branch case (line 256), which
  no \<^verbatim>\<open>try\<close> surrounds; it carries the rejected literal.
\<close>

datatype asm_error = AssemblerError string int | ValueError string

definition REGISTERS :: "string \<rightharpoonup> int" where
  "REGISTERS = map_of
     [(''$r0'', 0), (''$r1'', 1), (''$r2'', 2), (''$r3'', 3),
      (''$r4'', 4), (''$r5'', 5), (''$r6'', 6), (''$r7'', 7),
      (''r0'', 0), (''r1'', 1), (''r2'', 2), (''r3'', 3),
      (''r4'', 4), (''r5'', 5), (''r6'', 6), (''r7'', 7)]"

definition R_TYPE_FUNCT :: "string \<rightharpoonup> int" where
  "R_TYPE_FUNCT = map_of
     [(''ADD'', 0), (''SUB'', 1), (''AND'', 2), (''OR'', 3), (''SLT'', 4), (''JR'', 5)]"

definition I_TYPE_OPCODES :: "string \<rightharpoonup> int" where
  "I_TYPE_OPCODES = map_of
     [(''LW'', 1), (''SW'', 2), (''ADDI'', 3), (''SUBI'', 4), (''SLTI'', 5), (''BEQ'', 6),
      (''BNQ'', 7), (''ANDI'', 8)]"

definition J_TYPE_OPCODES :: "string \<rightharpoonup> int" where
  "J_TYPE_OPCODES = map_of [(''JUMP'', 9), (''JAL'', 10)]"

definition parse_register :: "string \<Rightarrow> int \<Rightarrow> asm_error + int" where
  "parse_register reg_str line_num =
     (let reg = lower (strip reg_str)
      in case REGISTERS reg of
           Some n \<Rightarrow> Inr n
         | None \<Rightarrow> Inl (AssemblerError (''Invalid register: '' @ reg) line_num))"

text \<open>\<^verbatim>\<open>parse_immediate(imm_str, line_num, bits)\<close>. The three branches of the \<^verbatim>\<open>try\<close> differ
  only in the base passed to \<^verbatim>\<open>int\<close>.\<close>

definition parse_immediate :: "string \<Rightarrow> int \<Rightarrow> nat \<Rightarrow> asm_error + int" where
  "parse_immediate imm_str0 line_num bits =
     (let imm_str = strip imm_str0;
          parsed = (if startswith imm_str ''0x'' \<or> startswith imm_str ''0X''
                    then py_int 16 imm_str else py_int 10 imm_str)
      in case parsed of
           None \<Rightarrow> Inl (AssemblerError (''Invalid immediate value: '' @ imm_str) line_num)
         | Some v \<Rightarrow>
             let max_val = push_bit (bits - 1) 1 - 1;
                 min_val = - push_bit (bits - 1) 1
             in if v < min_val \<or> v > max_val then
                  Inl (AssemblerError (''Immediate value '' @ str_int v @ '' out of range [''
                         @ str_int min_val @ '', '' @ str_int max_val @ '']'') line_num)
                else
                  (let v' = (if v < 0 then push_bit bits 1 + v else v)
                   in Inr (v' AND (push_bit bits 1 - 1))))"

definition encode_r_type :: "int \<Rightarrow> int \<Rightarrow> int \<Rightarrow> int \<Rightarrow> int" where
  "encode_r_type rs rt rd funct =
     push_bit 12 0 OR push_bit 9 rs OR push_bit 6 rt OR push_bit 3 rd OR funct"

definition encode_i_type :: "int \<Rightarrow> int \<Rightarrow> int \<Rightarrow> int \<Rightarrow> int" where
  "encode_i_type opcode rs rt imm =
     push_bit 12 opcode OR push_bit 9 rs OR push_bit 6 rt OR (imm AND 0x3F)"

definition encode_j_type :: "int \<Rightarrow> int \<Rightarrow> int" where
  "encode_j_type opcode address = push_bit 12 opcode OR (address AND 0xFFF)"

text \<open>
  The regular expression of the two-operand memory form, matched at the start of the
  operand with \<^verbatim>\<open>re.IGNORECASE\<close>:
  \<^verbatim>\<open>(-?\d+)\s*\(\s*(\$?r\d)\s*\)\<close>. The result is the pair of groups 1 and 2. Every
  choice point of the pattern is decided by the next character, so no backtracking is
  needed.
\<close>

definition match_mem_operand :: "string \<Rightarrow> (string \<times> string) option" where
  "match_mem_operand s =
     (let sign = (case s of c # _ \<Rightarrow> if c = CHR ''-'' then ''-'' else [] | [] \<Rightarrow> []);
          s1 = drop (length sign) s;
          digits = takeWhile is_digit s1;
          s2 = dropWhile py_isspace (dropWhile is_digit s1)
      in if digits = [] then None
         else case s2 of
           [] \<Rightarrow> None
         | c # s3 \<Rightarrow>
             if c \<noteq> CHR ''('' then None
             else
               (let s4 = dropWhile py_isspace s3;
                    dollar = (case s4 of d # _ \<Rightarrow> if d = CHR ''$'' then ''$'' else [] | [] \<Rightarrow> []);
                    s5 = drop (length dollar) s4
                in case s5 of
                     r # n # s6 \<Rightarrow>
                       if (r = CHR ''r'' \<or> r = CHR ''R'') \<and> is_digit n then
                         (case dropWhile py_isspace s6 of
                            e # _ \<Rightarrow> if e = CHR '')'' then Some (sign @ digits, dollar @ [r, n])
                                     else None
                          | [] \<Rightarrow> None)
                       else None
                   | _ \<Rightarrow> None))"

text \<open>Sequencing of computations that may raise: the first error is the result.\<close>

definition bind_err :: "asm_error + 'a \<Rightarrow> ('a \<Rightarrow> asm_error + 'b) \<Rightarrow> asm_error + 'b" where
  "bind_err m f = (case m of Inl e \<Rightarrow> Inl e | Inr v \<Rightarrow> f v)"

text \<open>\<^verbatim>\<open>target.lstrip('-')\<close>.\<close>

definition lstrip_minus :: "string \<Rightarrow> string" where
  "lstrip_minus s = dropWhile (\<lambda>c. c = CHR ''-'') s"

text \<open>The offset of a branch whose third operand is not a label (line 256):
  \<^verbatim>\<open>int(target) if target.lstrip('-').isdigit() else int(target, 16) if
  target.startswith('0x') else 0\<close>.\<close>

definition branch_offset :: "string \<Rightarrow> asm_error + int" where
  "branch_offset target =
     (if isdigit (lstrip_minus target) then
        (case py_int 10 target of Some v \<Rightarrow> Inr v | None \<Rightarrow> Inl (ValueError target))
      else if startswith target ''0x'' then
        (case py_int 16 target of Some v \<Rightarrow> Inr v | None \<Rightarrow> Inl (ValueError target))
      else Inr 0)"

definition encode_instruction ::
    "string \<Rightarrow> string list \<Rightarrow> (string \<rightharpoonup> int) \<Rightarrow> int \<Rightarrow> int \<Rightarrow> asm_error + int" where
  "encode_instruction instruction operands labels current_addr line_num =
     (case R_TYPE_FUNCT instruction of
        Some funct \<Rightarrow>
          if instruction = ''JR'' then
            (if length operands \<noteq> 1 then
               Inl (AssemblerError (''JR requires 1 operand, got ''
                      @ str_int (int (length operands))) line_num)
             else bind_err (parse_register (operands ! 0) line_num)
                    (\<lambda>rs. Inr (encode_r_type rs 0 0 funct)))
          else
            (if length operands \<noteq> 3 then
               Inl (AssemblerError (instruction @ '' requires 3 operands, got ''
                      @ str_int (int (length operands))) line_num)
             else bind_err (parse_register (operands ! 0) line_num) (\<lambda>rd.
                  bind_err (parse_register (operands ! 1) line_num) (\<lambda>rs.
                  bind_err (parse_register (operands ! 2) line_num) (\<lambda>rt.
                  Inr (encode_r_type rs rt rd funct)))))
      | None \<Rightarrow>
     (case I_TYPE_OPCODES instruction of
        Some opcode \<Rightarrow>
          if instruction = ''LW'' \<or> instruction = ''SW'' then
            (if length operands = 2 then
               bind_err (parse_register (operands ! 0) line_num) (\<lambda>rt.
                 case match_mem_operand (operands ! 1) of
                   Some (g1, g2) \<Rightarrow>
                     bind_err (parse_immediate g1 line_num 6) (\<lambda>imm.
                     bind_err (parse_register g2 line_num) (\<lambda>rs.
                     Inr (encode_i_type opcode rs rt imm)))
                 | None \<Rightarrow>
                     Inl (AssemblerError (''Invalid memory operand format: '' @ operands ! 1)
                            line_num))
             else if length operands = 3 then
               bind_err (parse_register (operands ! 0) line_num) (\<lambda>rt.
               bind_err (parse_register (operands ! 1) line_num) (\<lambda>rs.
               bind_err (parse_immediate (operands ! 2) line_num 6) (\<lambda>imm.
               Inr (encode_i_type opcode rs rt imm))))
             else Inl (AssemblerError (instruction @ '' requires 2-3 operands'') line_num))
          else if instruction = ''BEQ'' \<or> instruction = ''BNQ'' then
            (if length operands \<noteq> 3 then
               Inl (AssemblerError (instruction @ '' requires 3 operands'') line_num)
             else
               bind_err (parse_register (operands ! 0) line_num) (\<lambda>rs.
               bind_err (parse_register (operands ! 1) line_num) (\<lambda>rt.
               let target = strip (operands ! 2)
               in bind_err (case labels target of
                              Some a \<Rightarrow> Inr (a - (current_addr + 1))
                            | None \<Rightarrow> branch_offset target) (\<lambda>offset.
                  bind_err (parse_immediate (str_int offset) line_num 6) (\<lambda>imm.
                  Inr (encode_i_type opcode rs rt imm))))))
          else
            (if length operands \<noteq> 3 then
               Inl (AssemblerError (instruction @ '' requires 3 operands'') line_num)
             else
               bind_err (parse_register (operands ! 0) line_num) (\<lambda>rt.
               bind_err (parse_register (operands ! 1) line_num) (\<lambda>rs.
               bind_err (parse_immediate (operands ! 2) line_num 6) (\<lambda>imm.
               Inr (encode_i_type opcode rs rt imm)))))
      | None \<Rightarrow>
     (case J_TYPE_OPCODES instruction of
        Some opcode \<Rightarrow>
          if length operands \<noteq> 1 then
            Inl (AssemblerError (instruction @ '' requires 1 operand'') line_num)
          else
            (let target = strip (operands ! 0)
             in bind_err
                  (case labels target of
                     Some a \<Rightarrow> Inr a
                   | None \<Rightarrow>
                       (case (if startswith target ''0x'' \<or> startswith target ''0X''
                              then py_int 16 target else py_int 10 target) of
                          Some a \<Rightarrow> Inr a
                        | None \<Rightarrow> Inl (AssemblerError
                            (''Undefined label or invalid address: '' @ target) line_num)))
                  (\<lambda>address.
                     if address < 0 \<or> address > 0xFFF then
                       Inl (AssemblerError (''Jump address '' @ str_int address
                              @ '' out of range [0, 4095]'') line_num)
                     else Inr (encode_j_type opcode address)))
      | None \<Rightarrow> Inl (AssemblerError (''Unknown instruction: '' @ instruction) line_num))))"

subsection \<open>Tokenizer and the two passes\<close>

text \<open>\<^verbatim>\<open>line[:line.index(sep)]\<close> when \<^verbatim>\<open>sep in line\<close>, the whole line otherwise.\<close>

fun before_sub :: "string \<Rightarrow> string \<Rightarrow> string" where
  "before_sub sep [] = []"
| "before_sub sep (c # cs) =
     (if take (length sep) (c # cs) = sep then [] else c # before_sub sep cs)"

text \<open>\<^verbatim>\<open>s.split(sep)\<close> for a one-character separator: at least one part.\<close>

fun split_char :: "char \<Rightarrow> string \<Rightarrow> string list" where
  "split_char sep [] = [[]]"
| "split_char sep (c # cs) =
     (if c = sep then [] # split_char sep cs
      else (case split_char sep cs of p # ps \<Rightarrow> (c # p) # ps | [] \<Rightarrow> [[c]]))"

text \<open>\<^verbatim>\<open>tokenize_line(line)\<close>: the label, the mnemonic and the operands.
  \<^verbatim>\<open>line.split(':', 1)\<close> is the text before the first colon and the text after it;
  \<^verbatim>\<open>line.split(None, 1)\<close> on a stripped, non-empty line is its first run of
  non-whitespace characters and, if there is one, the rest after the whitespace.\<close>

definition tokenize_line :: "string \<Rightarrow> string option \<times> string option \<times> string list" where
  "tokenize_line line0 =
     (let line1 = before_sub ''#'' line0;
          line2 = before_sub ''//'' line1;
          line3 = strip line2
      in if line3 = [] then (None, None, [])
         else
           (let has_colon = (CHR '':'' \<in> set line3);
                label = (if has_colon then Some (strip (takeWhile (\<lambda>c. c \<noteq> CHR '':'') line3))
                         else None);
                line4 = (if has_colon
                         then strip (drop 1 (dropWhile (\<lambda>c. c \<noteq> CHR '':'') line3))
                         else line3)
            in if line4 = [] then (label, None, [])
               else
                 (let instruction = upper (takeWhile (\<lambda>c. \<not> py_isspace c) line4);
                      rest = dropWhile py_isspace (dropWhile (\<lambda>c. \<not> py_isspace c) line4);
                      operands = (if rest = [] then [] else map strip (split_char (CHR '','') rest))
                  in (label, Some instruction, operands))))"

text \<open>The first pass of \<^verbatim>\<open>assemble\<close>: labels and the list of (address, line number,
  mnemonic, operands). \<^verbatim>\<open>if label:\<close> skips an empty label.\<close>

fun first_pass :: "string list \<Rightarrow> int \<Rightarrow> int \<Rightarrow> (string \<rightharpoonup> int)
    \<Rightarrow> (int \<times> int \<times> string \<times> string list) list
    \<Rightarrow> asm_error + ((string \<rightharpoonup> int) \<times> (int \<times> int \<times> string \<times> string list) list)" where
  "first_pass [] line_num current_addr labels instructions = Inr (labels, instructions)"
| "first_pass (line # rest) line_num current_addr labels instructions =
     (case tokenize_line line of (label, instruction, operands) \<Rightarrow>
        if truthy label \<and> labels (the label) \<noteq> None then
          Inl (AssemblerError (''Duplicate label: '' @ the label) line_num)
        else
          (let labels' = (if truthy label then labels(the label \<mapsto> current_addr) else labels)
           in if truthy instruction then
                first_pass rest (line_num + 1) (current_addr + 1) labels'
                  (instructions @ [(current_addr, line_num, the instruction, operands)])
              else first_pass rest (line_num + 1) current_addr labels' instructions))"

text \<open>The second pass: one hex word per instruction. An exception that is not an
  AssemblerError is re-raised as \<^verbatim>\<open>AssemblerError(str(e), line_num)\<close>; the text of a
  ValueError of \<^verbatim>\<open>int\<close> is kept abstract as the rejected literal.\<close>

fun second_pass :: "(int \<times> int \<times> string \<times> string list) list \<Rightarrow> (string \<rightharpoonup> int)
    \<Rightarrow> asm_error + string list" where
  "second_pass [] labels = Inr []"
| "second_pass ((addr, line_num, instruction, operands) # rest) labels =
     (case encode_instruction instruction operands labels addr line_num of
        Inl (AssemblerError m n) \<Rightarrow> Inl (AssemblerError m n)
      | Inl (ValueError lit) \<Rightarrow> Inl (AssemblerError lit line_num)
      | Inr machine_code \<Rightarrow>
          (case second_pass rest labels of
             Inl e \<Rightarrow> Inl e
           | Inr codes \<Rightarrow> Inr (format_04X machine_code # codes)))"

text \<open>\<^verbatim>\<open>assemble(code)\<close>: the machine codes and the label table (the map from addresses to
  source lines is display data and is left out).\<close>

definition assemble :: "string \<Rightarrow> asm_error + (string list \<times> (string \<rightharpoonup> int))" where
  "assemble code =
     (case first_pass (split_char (CHR 0x0A) (strip code)) 1 0 Map.empty [] of
        Inl e \<Rightarrow> Inl e
      | Inr (labels, instructions) \<Rightarrow>
          (case second_pass instructions labels of
             Inl e \<Rightarrow> Inl e
           | Inr codes \<Rightarrow> Inr (codes, labels)))"

section \<open>The architectural state\<close>

text \<open>
  Two CPU objects agree architecturally when they agree on everything a later cycle reads:
  the program counter, the register file, both memories, the cycle counter, the four
  latches, the stall and halted flags and the flush counter. The observability records
  (cleared at the start of each cycle) and the histories are left out.
\<close>

definition arch_eq :: "cpu \<Rightarrow> cpu \<Rightarrow> bool" where
  "arch_eq s t = (pc s = pc t \<and> registers s = registers t
     \<and> instruction_memory s = instruction_memory t \<and> data_memory s = data_memory t
     \<and> cycle s = cycle t \<and> IF_ID s = IF_ID t \<and> ID_EX s = ID_EX t \<and> EX_MEM s = EX_MEM t
     \<and> MEM_WB s = MEM_WB t \<and> stall s = stall t \<and> halted s = halted t
     \<and> flush_count s = flush_count t)"

text \<open>Agreement on the observability records of the current cycle.\<close>

definition obs_eq :: "cpu \<Rightarrow> cpu \<Rightarrow> bool" where
  "obs_eq s t = (forward_a s = forward_a t \<and> forward_b s = forward_b t
     \<and> stall_info s = stall_info t \<and> memory_warning s = memory_warning t
     \<and> control_hazard s = control_hazard t \<and> flush_occurred s = flush_occurred t)"

text \<open>The part of \<^verbatim>\<open>step()\<close> after the fetch: commit, then the histories and the halt
  check.\<close>

definition finish :: "stage_out \<Rightarrow> if_id \<Rightarrow> cpu \<Rightarrow> bool \<times> cpu" where
  "finish out fetched s =
     (let c = commit out fetched s
      in record_history out (fst (fst c)) (snd (fst c)) (snd c))"

text \<open>A CPU with the program \<open>P\<close> loaded and the given program counter, registers, cycle
  counter, flush counter, halted flag, latches and data memory; everything else as
  \<^verbatim>\<open>reset()\<close> leaves it.\<close>

definition machine :: "string list \<Rightarrow> int \<Rightarrow> int list \<Rightarrow> int \<Rightarrow> int \<Rightarrow> bool \<Rightarrow> if_id \<Rightarrow> id_ex
    \<Rightarrow> ex_mem \<Rightarrow> mem_wb \<Rightarrow> (int \<rightharpoonup> int) \<Rightarrow> cpu" where
  "machine P p regs c fc h i d e m dm = (load_program P)\<lparr>pc := p, registers := regs, cycle := c,
     flush_count := fc, halted := h, IF_ID := i, ID_EX := d, EX_MEM := e, MEM_WB := m,
     data_memory := dm\<rparr>"

section \<open>A program whose branch leaves the instruction memory backwards\<close>

text \<open>
  \<^verbatim>\<open>BEQ $r0, $r0, -3\<close> at address 0 is taken and sets the program counter to \<open>-2\<close>; the
  fetch \<^verbatim>\<open>self.instruction_memory[self.pc]\<close> then reads the list from its end, which is
  \<^verbatim>\<open>JAL 1\<close>, and JAL keeps \<open>pc + 1 = -1\<close> as its return address. At address 1 follow
  \<^verbatim>\<open>OR $r1, $r7, $r0\<close> and \<^verbatim>\<open>SLTI $r2, $r1, -5\<close>. The states \<open>t7_k\<close> are the
  architectural states after \<open>k\<close> cycles.
\<close>

definition negative_pc_program :: "string list" where
  "negative_pc_program = [''603D'', ''0E0B'', ''52BB'', ''A001'', ''0007'']"

definition t7_0 :: cpu where
  "t7_0 =
     machine negative_pc_program 0 [0,0,0,0,0,0,0,0] 0 0 False
        (empty_if_id)
        (empty_id_ex)
        (empty_ex_mem)
        (empty_mem_wb)
        Map.empty"

definition t7_1 :: cpu where
  "t7_1 =
     machine negative_pc_program 1 [0,0,0,0,0,0,0,0] 1 0 False
        (empty_if_id\<lparr>ii_instruction := Some ''603D'', ii_valid := True\<rparr>)
        (empty_id_ex)
        (empty_ex_mem)
        (empty_mem_wb)
        Map.empty"

definition t7_2 :: cpu where
  "t7_2 =
     machine negative_pc_program (-2) [0,0,0,0,0,0,0,0] 2 1 False
        (empty_if_id)
        (empty_id_ex\<lparr>ie_instruction := Some ''603D'', ie_opcode := 6, ie_imm := -3,
        ie_branch := True, ie_alu_op := BEQ, ie_valid := True\<rparr>)
        (empty_ex_mem)
        (empty_mem_wb)
        Map.empty"

definition t7_3 :: cpu where
  "t7_3 =
     machine negative_pc_program (-1) [0,0,0,0,0,0,0,0] 3 1 False
        (empty_if_id\<lparr>ii_instruction := Some ''A001'', ii_pc := -2, ii_valid :=
        True\<rparr>)
        (empty_id_ex)
        (empty_ex_mem\<lparr>em_instruction := Some ''603D'', em_valid := True\<rparr>)
        (empty_mem_wb)
        Map.empty"

definition t7_4 :: cpu where
  "t7_4 =
     machine negative_pc_program 1 [0,0,0,0,0,0,0,0] 4 2 False
        (empty_if_id)
        (empty_id_ex\<lparr>ie_instruction := Some ''A001'', ie_pc := -2, ie_opcode := 10,
        ie_rd := 7, ie_address := 1, ie_rs_val := -1, ie_reg_write := True, ie_jump := True,
        ie_alu_op := JAL, ie_valid := True\<rparr>)
        (empty_ex_mem)
        (empty_mem_wb\<lparr>mw_instruction := Some ''603D'', mw_valid := True\<rparr>)
        Map.empty"

definition t7_5 :: cpu where
  "t7_5 =
     machine negative_pc_program 2 [0,0,0,0,0,0,0,0] 5 2 False
        (empty_if_id\<lparr>ii_instruction := Some ''0E0B'', ii_pc := 1, ii_valid :=
        True\<rparr>)
        (empty_id_ex)
        (empty_ex_mem\<lparr>em_instruction := Some ''A001'', em_pc := -2, em_alu_result :=
        -1, em_rd := 7, em_reg_write := True, em_valid := True\<rparr>)
        (empty_mem_wb)
        Map.empty"

definition t7_6 :: cpu where
  "t7_6 =
     machine negative_pc_program 3 [0,0,0,0,0,0,0,0] 6 2 False
        (empty_if_id\<lparr>ii_instruction := Some ''52BB'', ii_pc := 2, ii_valid :=
        True\<rparr>)
        (empty_id_ex\<lparr>ie_instruction := Some ''0E0B'', ie_pc := 1, ie_rs := 7, ie_rd
        := 1, ie_funct := 3, ie_reg_write := True, ie_alu_op := OR_op, ie_valid :=
        True\<rparr>)
        (empty_ex_mem)
        (empty_mem_wb\<lparr>mw_instruction := Some ''A001'', mw_pc := -2, mw_alu_result :=
        -1, mw_rd := 7, mw_reg_write := True, mw_valid := True\<rparr>)
        Map.empty"

definition t7_7 :: cpu where
  "t7_7 =
     machine negative_pc_program 4 [0,0,0,0,0,0,0,65535] 7 2 False
        (empty_if_id\<lparr>ii_instruction := Some ''A001'', ii_pc := 3, ii_valid :=
        True\<rparr>)
        (empty_id_ex\<lparr>ie_instruction := Some ''52BB'', ie_pc := 2, ie_opcode := 5,
        ie_rs := 1, ie_rt := 2, ie_rd := 2, ie_imm := -5, ie_reg_write := True, ie_alu_op :=
        SLTI, ie_valid := True\<rparr>)
        (empty_ex_mem\<lparr>em_instruction := Some ''0E0B'', em_pc := 1, em_alu_result :=
        -1, em_rd := 1, em_reg_write := True, em_valid := True\<rparr>)
        (empty_mem_wb)
        Map.empty"

definition t7_8 :: cpu where
  "t7_8 =
     machine negative_pc_program 1 [0,0,0,0,0,0,0,65535] 8 3 False
        (empty_if_id)
        (empty_id_ex\<lparr>ie_instruction := Some ''A001'', ie_pc := 3, ie_opcode := 10,
        ie_rd := 7, ie_address := 1, ie_rs_val := 4, ie_reg_write := True, ie_jump := True,
        ie_alu_op := JAL, ie_valid := True\<rparr>)
        (empty_ex_mem\<lparr>em_instruction := Some ''52BB'', em_pc := 2, em_alu_result :=
        1, em_rd := 2, em_reg_write := True, em_valid := True\<rparr>)
        (empty_mem_wb\<lparr>mw_instruction := Some ''0E0B'', mw_pc := 1, mw_alu_result :=
        -1, mw_rd := 1, mw_reg_write := True, mw_valid := True\<rparr>)
        Map.empty"

definition t7_9 :: cpu where
  "t7_9 =
     machine negative_pc_program 2 [0,65535,0,0,0,0,0,65535] 9 3 False
        (empty_if_id\<lparr>ii_instruction := Some ''0E0B'', ii_pc := 1, ii_valid :=
        True\<rparr>)
        (empty_id_ex)
        (empty_ex_mem\<lparr>em_instruction := Some ''A001'', em_pc := 3, em_alu_result :=
        4, em_rd := 7, em_reg_write := True, em_valid := True\<rparr>)
        (empty_mem_wb\<lparr>mw_instruction := Some ''52BB'', mw_pc := 2, mw_alu_result :=
        1, mw_rd := 2, mw_reg_write := True, mw_valid := True\<rparr>)
        Map.empty"

definition t7_10 :: cpu where
  "t7_10 =
     machine negative_pc_program 3 [0,65535,1,0,0,0,0,65535] 10 3 False
        (empty_if_id\<lparr>ii_instruction := Some ''52BB'', ii_pc := 2, ii_valid :=
        True\<rparr>)
        (empty_id_ex\<lparr>ie_instruction := Some ''0E0B'', ie_pc := 1, ie_rs := 7, ie_rd
        := 1, ie_funct := 3, ie_rs_val := 65535, ie_reg_write := True, ie_alu_op := OR_op,
        ie_valid := True\<rparr>)
        (empty_ex_mem)
        (empty_mem_wb\<lparr>mw_instruction := Some ''A001'', mw_pc := 3, mw_alu_result :=
        4, mw_rd := 7, mw_reg_write := True, mw_valid := True\<rparr>)
        Map.empty"







section \<open>What each part of a cycle leaves unchanged\<close>

text \<open>Write-back assigns the register file only, the memory stage the data memory and the
  memory warning, execute the two forwarding records, decode the stall flag and its record,
  the fetch the program counter.\<close>

lemma stage_wb_frame [simp]:
  "pc (stage_wb mw s) = pc s"
  "instruction_memory (stage_wb mw s) = instruction_memory s"
  "data_memory (stage_wb mw s) = data_memory s"
  "cycle (stage_wb mw s) = cycle s"
  "IF_ID (stage_wb mw s) = IF_ID s"
  "ID_EX (stage_wb mw s) = ID_EX s"
  "EX_MEM (stage_wb mw s) = EX_MEM s"
  "MEM_WB (stage_wb mw s) = MEM_WB s"
  "stall (stage_wb mw s) = stall s"
  "flush_if (stage_wb mw s) = flush_if s"
  "flush_id (stage_wb mw s) = flush_id s"
  "halted (stage_wb mw s) = halted s"
  "forward_a (stage_wb mw s) = forward_a s"
  "forward_b (stage_wb mw s) = forward_b s"
  "stall_info (stage_wb mw s) = stall_info s"
  "memory_warning (stage_wb mw s) = memory_warning s"
  "control_hazard (stage_wb mw s) = control_hazard s"
  "flush_occurred (stage_wb mw s) = flush_occurred s"
  "if_id_was_held (stage_wb mw s) = if_id_was_held s"
  "pipeline_history (stage_wb mw s) = pipeline_history s"
  "stall_history (stage_wb mw s) = stall_history s"
  "forward_history (stage_wb mw s) = forward_history s"
  "flush_count (stage_wb mw s) = flush_count s"
  "seen_in_if (stage_wb mw s) = seen_in_if s"
  "seen_in_wb (stage_wb mw s) = seen_in_wb s"
  by (simp_all add: stage_wb_def)

lemma stage_mem_frame [simp]:
  "pc (snd (stage_mem em s)) = pc s"
  "registers (snd (stage_mem em s)) = registers s"
  "instruction_memory (snd (stage_mem em s)) = instruction_memory s"
  "cycle (snd (stage_mem em s)) = cycle s"
  "IF_ID (snd (stage_mem em s)) = IF_ID s"
  "ID_EX (snd (stage_mem em s)) = ID_EX s"
  "EX_MEM (snd (stage_mem em s)) = EX_MEM s"
  "MEM_WB (snd (stage_mem em s)) = MEM_WB s"
  "stall (snd (stage_mem em s)) = stall s"
  "flush_if (snd (stage_mem em s)) = flush_if s"
  "flush_id (snd (stage_mem em s)) = flush_id s"
  "halted (snd (stage_mem em s)) = halted s"
  "forward_a (snd (stage_mem em s)) = forward_a s"
  "forward_b (snd (stage_mem em s)) = forward_b s"
  "stall_info (snd (stage_mem em s)) = stall_info s"
  "control_hazard (snd (stage_mem em s)) = control_hazard s"
  "flush_occurred (snd (stage_mem em s)) = flush_occurred s"
  "if_id_was_held (snd (stage_mem em s)) = if_id_was_held s"
  "pipeline_history (snd (stage_mem em s)) = pipeline_history s"
  "stall_history (snd (stage_mem em s)) = stall_history s"
  "forward_history (snd (stage_mem em s)) = forward_history s"
  "flush_count (snd (stage_mem em s)) = flush_count s"
  "seen_in_if (snd (stage_mem em s)) = seen_in_if s"
  "seen_in_wb (snd (stage_mem em s)) = seen_in_wb s"
  by (simp_all add: stage_mem_def Let_def)

lemma stage_ex_frame [simp]:
  "pc (snd (stage_ex ie em mw s)) = pc s"
  "registers (snd (stage_ex ie em mw s)) = registers s"
  "instruction_memory (snd (stage_ex ie em mw s)) = instruction_memory s"
  "data_memory (snd (stage_ex ie em mw s)) = data_memory s"
  "cycle (snd (stage_ex ie em mw s)) = cycle s"
  "IF_ID (snd (stage_ex ie em mw s)) = IF_ID s"
  "ID_EX (snd (stage_ex ie em mw s)) = ID_EX s"
  "EX_MEM (snd (stage_ex ie em mw s)) = EX_MEM s"
  "MEM_WB (snd (stage_ex ie em mw s)) = MEM_WB s"
  "stall (snd (stage_ex ie em mw s)) = stall s"
  "flush_if (snd (stage_ex ie em mw s)) = flush_if s"
  "flush_id (snd (stage_ex ie em mw s)) = flush_id s"
  "halted (snd (stage_ex ie em mw s)) = halted s"
  "stall_info (snd (stage_ex ie em mw s)) = stall_info s"
  "memory_warning (snd (stage_ex ie em mw s)) = memory_warning s"
  "control_hazard (snd (stage_ex ie em mw s)) = control_hazard s"
  "flush_occurred (snd (stage_ex ie em mw s)) = flush_occurred s"
  "if_id_was_held (snd (stage_ex ie em mw s)) = if_id_was_held s"
  "pipeline_history (snd (stage_ex ie em mw s)) = pipeline_history s"
  "stall_history (snd (stage_ex ie em mw s)) = stall_history s"
  "forward_history (snd (stage_ex ie em mw s)) = forward_history s"
  "flush_count (snd (stage_ex ie em mw s)) = flush_count s"
  "seen_in_if (snd (stage_ex ie em mw s)) = seen_in_if s"
  "seen_in_wb (snd (stage_ex ie em mw s)) = seen_in_wb s"
  by (simp_all add: stage_ex_def split: prod.splits)

lemma stage_id_frame [simp]:
  "pc (snd (stage_id i n s)) = pc s"
  "registers (snd (stage_id i n s)) = registers s"
  "instruction_memory (snd (stage_id i n s)) = instruction_memory s"
  "data_memory (snd (stage_id i n s)) = data_memory s"
  "cycle (snd (stage_id i n s)) = cycle s"
  "IF_ID (snd (stage_id i n s)) = IF_ID s"
  "ID_EX (snd (stage_id i n s)) = ID_EX s"
  "EX_MEM (snd (stage_id i n s)) = EX_MEM s"
  "MEM_WB (snd (stage_id i n s)) = MEM_WB s"
  "flush_if (snd (stage_id i n s)) = flush_if s"
  "flush_id (snd (stage_id i n s)) = flush_id s"
  "halted (snd (stage_id i n s)) = halted s"
  "forward_a (snd (stage_id i n s)) = forward_a s"
  "forward_b (snd (stage_id i n s)) = forward_b s"
  "memory_warning (snd (stage_id i n s)) = memory_warning s"
  "control_hazard (snd (stage_id i n s)) = control_hazard s"
  "flush_occurred (snd (stage_id i n s)) = flush_occurred s"
  "if_id_was_held (snd (stage_id i n s)) = if_id_was_held s"
  "pipeline_history (snd (stage_id i n s)) = pipeline_history s"
  "stall_history (snd (stage_id i n s)) = stall_history s"
  "forward_history (snd (stage_id i n s)) = forward_history s"
  "flush_count (snd (stage_id i n s)) = flush_count s"
  "seen_in_if (snd (stage_id i n s)) = seen_in_if s"
  "seen_in_wb (snd (stage_id i n s)) = seen_in_wb s"
  by (simp_all add: stage_id_def split: prod.splits option.splits)

lemma clear_records_frame [simp]:
  "pc (clear_records s) = pc s"
  "registers (clear_records s) = registers s"
  "instruction_memory (clear_records s) = instruction_memory s"
  "data_memory (clear_records s) = data_memory s"
  "cycle (clear_records s) = cycle s"
  "IF_ID (clear_records s) = IF_ID s"
  "ID_EX (clear_records s) = ID_EX s"
  "EX_MEM (clear_records s) = EX_MEM s"
  "MEM_WB (clear_records s) = MEM_WB s"
  "stall (clear_records s) = stall s"
  "flush_if (clear_records s) = flush_if s"
  "flush_id (clear_records s) = flush_id s"
  "halted (clear_records s) = halted s"
  "if_id_was_held (clear_records s) = if_id_was_held s"
  "pipeline_history (clear_records s) = pipeline_history s"
  "stall_history (clear_records s) = stall_history s"
  "forward_history (clear_records s) = forward_history s"
  "flush_count (clear_records s) = flush_count s"
  "seen_in_if (clear_records s) = seen_in_if s"
  "seen_in_wb (clear_records s) = seen_in_wb s"
  by (simp_all add: clear_records_def)


lemma stage_if_frame:
  assumes "stage_if s = Inr (f, s1)"
  shows "registers s1 = registers s"
    and "instruction_memory s1 = instruction_memory s"
    and "data_memory s1 = data_memory s"
    and "cycle s1 = cycle s"
    and "IF_ID s1 = IF_ID s"
    and "ID_EX s1 = ID_EX s"
    and "EX_MEM s1 = EX_MEM s"
    and "MEM_WB s1 = MEM_WB s"
    and "stall s1 = stall s"
    and "flush_if s1 = flush_if s"
    and "flush_id s1 = flush_id s"
    and "halted s1 = halted s"
    and "forward_a s1 = forward_a s"
    and "forward_b s1 = forward_b s"
    and "stall_info s1 = stall_info s"
    and "memory_warning s1 = memory_warning s"
    and "control_hazard s1 = control_hazard s"
    and "flush_occurred s1 = flush_occurred s"
    and "if_id_was_held s1 = if_id_was_held s"
    and "pipeline_history s1 = pipeline_history s"
    and "stall_history s1 = stall_history s"
    and "forward_history s1 = forward_history s"
    and "flush_count s1 = flush_count s"
    and "seen_in_if s1 = seen_in_if s"
    and "seen_in_wb s1 = seen_in_wb s"
  using assms by (auto simp: stage_if_def Let_def split: if_splits)

lemma run_stages_frame [simp]:
  "pc (snd (run_stages s)) = pc s"
  "instruction_memory (snd (run_stages s)) = instruction_memory s"
  "cycle (snd (run_stages s)) = cycle s"
  "IF_ID (snd (run_stages s)) = IF_ID s"
  "ID_EX (snd (run_stages s)) = ID_EX s"
  "EX_MEM (snd (run_stages s)) = EX_MEM s"
  "MEM_WB (snd (run_stages s)) = MEM_WB s"
  "halted (snd (run_stages s)) = halted s"
  "flush_if (snd (run_stages s)) = flush_if s"
  "flush_id (snd (run_stages s)) = flush_id s"
  "if_id_was_held (snd (run_stages s)) = if_id_was_held s"
  "pipeline_history (snd (run_stages s)) = pipeline_history s"
  "stall_history (snd (run_stages s)) = stall_history s"
  "forward_history (snd (run_stages s)) = forward_history s"
  "flush_count (snd (run_stages s)) = flush_count s"
  "seen_in_if (snd (run_stages s)) = seen_in_if s"
  "seen_in_wb (snd (run_stages s)) = seen_in_wb s"
  "control_hazard (snd (run_stages s)) = None"
  "flush_occurred (snd (run_stages s)) = False"
  by (simp_all add: run_stages_def Let_def) (simp_all add: clear_records_def)

lemma run_stages_out [simp]:
  "old_IF_ID (fst (run_stages s)) = IF_ID s"
  "old_MEM_WB (fst (run_stages s)) = MEM_WB s"
  by (simp_all add: run_stages_def Let_def)

lemma step_halted: "halted s \<Longrightarrow> step s = (Inr False, s)"
  by (simp add: step_def)

lemma step_raise:
  assumes "\<not> halted s" "stage_if (snd (run_stages s)) = Inl e"
  shows "step s = (Inl e, snd (run_stages s))"
  using assms by (simp add: step_def)

lemma step_normal:
  assumes "\<not> halted s" "stage_if (snd (run_stages s)) = Inr (f, s1)"
  shows "registers (snd (step s)) = registers (snd (run_stages s))"
    and "data_memory (snd (step s)) = data_memory (snd (run_stages s))"
    and "instruction_memory (snd (step s)) = instruction_memory s"
    and "MEM_WB (snd (step s)) = new_MEM_WB (fst (run_stages s))"
    and "EX_MEM (snd (step s)) = new_EX_MEM (fst (run_stages s))"
    and "ID_EX (snd (step s)) =
           (if stall (snd (run_stages s)) then empty_id_ex else new_ID_EX (fst (run_stages s)))"
    and "IF_ID (snd (step s)) =
           (if stall (snd (run_stages s)) then IF_ID s
            else if branch_taken (fst (run_stages s)) \<or> jump_target (fst (run_stages s)) \<noteq> None
            then empty_if_id else f)"
    and "pc (snd (step s)) =
           (if stall (snd (run_stages s)) then ii_pc (IF_ID s) + 1
            else if branch_taken (fst (run_stages s)) \<or> jump_target (fst (run_stages s)) \<noteq> None
            then (case jump_target (fst (run_stages s)) of Some t \<Rightarrow> t | None \<Rightarrow> pc s1)
            else pc s1)"
    and "stall (snd (step s)) = False"
    and "cycle (snd (step s)) = cycle s + 1"
    and "flush_count (snd (step s)) =
           (if branch_taken (fst (run_stages s)) \<or> jump_target (fst (run_stages s)) \<noteq> None
            then flush_count s + 1 else flush_count s)"
    and "if_id_was_held (snd (step s)) = stall (snd (run_stages s))"
    and "forward_a (snd (step s)) = forward_a (snd (run_stages s))"
    and "forward_b (snd (step s)) = forward_b (snd (run_stages s))"
    and "stall_info (snd (step s)) = stall_info (snd (run_stages s))"
    and "memory_warning (snd (step s)) = memory_warning (snd (run_stages s))"
  using assms(1) stage_if_frame[OF assms(2)]
  by (simp_all add: step_def commit_def record_history_def Let_def assms(2))

section \<open>Register 0 and the destination indices\<close>

lemma decode_rd_range:
  "0 \<le> ie_rd (fst (fst (decode i n regs ie em mw)))"
  "ie_rd (fst (fst (decode i n regs ie em mw))) \<le> 7"
  by (simp_all add: decode_def decode_r_def decode_j_def decode_i_def i_controls_def Let_def
        empty_id_ex_def split: option.splits)

lemma stage_id_fst:
  "fst (stage_id i n s) = fst (decode i n (registers s) (ID_EX s) (EX_MEM s) (MEM_WB s))"
  by (simp add: stage_id_def split: prod.splits option.splits)

lemma stage_ex_rd: "em_rd (fst (stage_ex ie em mw s)) = (if ie_valid ie then ie_rd ie else 0)"
  by (simp add: stage_ex_def execute_def Let_def empty_ex_mem_def)

lemma stage_mem_rd: "mw_rd (fst (stage_mem em s)) = (if em_valid em then em_rd em else 0)"
  by (simp add: stage_mem_def Let_def empty_mem_wb_def)

lemma run_stages_rd:
  "mw_rd (new_MEM_WB (fst (run_stages s))) = (if em_valid (EX_MEM s) then em_rd (EX_MEM s) else 0)"
  "em_rd (new_EX_MEM (fst (run_stages s))) = (if ie_valid (ID_EX s) then ie_rd (ID_EX s) else 0)"
  "0 \<le> ie_rd (new_ID_EX (fst (run_stages s)))"
  "ie_rd (new_ID_EX (fst (run_stages s))) \<le> 7"
  by (simp_all add: run_stages_def Let_def stage_mem_rd stage_ex_rd stage_id_fst decode_rd_range)

lemma latch_rd_ok_step: "latch_rd_ok s \<Longrightarrow> latch_rd_ok (snd (step s))"
proof (cases "halted s")
  case True
  assume "latch_rd_ok s"
  with True show ?thesis by (simp add: step_halted)
next
  case False
  assume ok: "latch_rd_ok s"
  show ?thesis
  proof (cases "stage_if (snd (run_stages s))")
    case (Inl e)
    with False ok show ?thesis by (simp add: step_raise latch_rd_ok_def)
  next
    case (Inr p)
    obtain f s1 where p: "p = (f, s1)" by (cases p)
    note n = step_normal[OF False Inr[unfolded p]]
    from ok show ?thesis
      by (simp add: latch_rd_ok_def n(4,5,6) run_stages_rd empty_id_ex_def)
  qed
qed

lemma stage_wb_reg0:
  "0 \<le> mw_rd mw \<Longrightarrow> registers s ! 0 = 0 \<Longrightarrow> registers (stage_wb mw s) ! 0 = 0"
  by (simp add: stage_wb_def nth_list_update)

lemma stage_wb_length: "length (registers (stage_wb mw s)) = length (registers s)"
  by (simp add: stage_wb_def)

lemma run_stages_registers:
  "registers (snd (run_stages s)) = registers (stage_wb (MEM_WB s) s)"
  by (simp add: run_stages_def Let_def) (simp add: stage_wb_def clear_records_def)

lemma step_registers:
  "registers (snd (step s)) = (if halted s then registers s else registers (stage_wb (MEM_WB s) s))"
proof (cases "halted s")
  case True then show ?thesis by (simp add: step_halted)
next
  case False
  show ?thesis
  proof (cases "stage_if (snd (run_stages s))")
    case (Inl e)
    with False show ?thesis by (simp add: step_raise run_stages_registers)
  next
    case (Inr p)
    obtain f s1 where p: "p = (f, s1)" by (cases p)
    from step_normal(1)[OF False Inr[unfolded p]] False show ?thesis
      by (simp add: run_stages_registers)
  qed
qed

lemma reg0_inv_step:
  assumes "reg0_inv s"
  shows "reg0_inv (snd (step s))"
proof -
  from assms have ok: "latch_rd_ok s" and len: "length (registers s) = 8"
    and zero: "registers s ! 0 = 0"
    by (simp_all add: reg0_inv_def)
  from ok have rd: "0 \<le> mw_rd (MEM_WB s)"
    by (simp add: latch_rd_ok_def)
  have "registers (snd (step s)) ! 0 = 0"
    using zero stage_wb_reg0[OF rd zero] by (simp add: step_registers)
  moreover have "length (registers (snd (step s))) = 8"
    using len by (simp add: step_registers stage_wb_length)
  ultimately show ?thesis
    using latch_rd_ok_step[OF ok] by (simp add: reg0_inv_def)
qed

lemma reg0_inv_load: "reg0_inv (load_program codes)"
  by (simp add: reg0_inv_def latch_rd_ok_def load_program_def reset_def empty_id_ex_def empty_ex_mem_def empty_mem_wb_def)

lemma reg0_inv_steps: "reg0_inv s \<Longrightarrow> reg0_inv (steps n s)"
  by (induction n arbitrary: s) (simp_all add: reg0_inv_step)

text \<open>
  Claim C1. For every loaded program and any number of \<^verbatim>\<open>step()\<close> calls from the freshly
  reset CPU, register 0 reads 0: write-back skips a destination 0, and no latch carries a
  negative destination that would address register 0 from the end of the list.
\<close>

theorem register_zero_invariant:
  "registers (steps n (load_program machine_codes)) ! 0 = 0"
  using reg0_inv_steps[OF reg0_inv_load] by (simp add: reg0_inv_def)

section \<open>Sixteen-bit representability\<close>

lemma and_mask16_range: "0 \<le> (x::int) AND 0xFFFF" "(x::int) AND 0xFFFF \<le> 65535"
  by simp_all

lemma list_all_update:
  "list_all P xs \<Longrightarrow> P v \<Longrightarrow> list_all P (xs[i := v])"
  using set_update_subset_insert[of xs i v] by (auto simp: list_all_iff)

lemma stage_wb_regs16:
  assumes "list_all (\<lambda>v. 0 \<le> v \<and> v \<le> 65535) (registers s)"
  shows "list_all (\<lambda>v. 0 \<le> v \<and> v \<le> 65535) (registers (stage_wb mw s))"
proof -
  have "list_all (\<lambda>v. 0 \<le> v \<and> v \<le> 65535) ((registers s)[i := x AND 0xFFFF])" for i x
    using assms by (rule list_all_update) simp
  with assms show ?thesis
    by (simp add: stage_wb_def)
qed

lemma stage_mem_mem16:
  assumes "\<And>a v. data_memory s a = Some v \<Longrightarrow> 0 \<le> v \<and> v \<le> 65535"
    and "data_memory (snd (stage_mem em s)) a = Some v"
  shows "0 \<le> v \<and> v \<le> 65535"
proof (cases "em_valid em \<and> \<not> em_mem_read em \<and> em_mem_write em")
  case True
  then have dm: "data_memory (snd (stage_mem em s))
      = (data_memory s)(em_alu_result em AND 0xFFFF \<mapsto> em_rt_val em AND 0xFFFF)"
    by (simp add: stage_mem_def Let_def)
  show ?thesis
  proof (cases "a = em_alu_result em AND 0xFFFF")
    case True
    with assms(2) dm have "v = em_rt_val em AND 0xFFFF" by simp
    then show ?thesis by simp
  next
    case False
    with assms(2) dm have "data_memory s a = Some v" by simp
    then show ?thesis by (rule assms(1))
  qed
next
  case False
  then have "data_memory (snd (stage_mem em s)) = data_memory s"
    by (auto simp: stage_mem_def Let_def)
  with assms(2) have "data_memory s a = Some v" by simp
  then show ?thesis by (rule assms(1))
qed

lemma run_stages_data_memory:
  "data_memory (snd (run_stages s)) = data_memory (snd (stage_mem (EX_MEM s) s))"
  by (simp add: run_stages_def Let_def) (simp add: stage_mem_def Let_def clear_records_def)

lemma step_data_memory:
  "data_memory (snd (step s)) =
     (if halted s then data_memory s else data_memory (snd (stage_mem (EX_MEM s) s)))"
proof (cases "halted s")
  case True then show ?thesis by (simp add: step_halted)
next
  case False
  show ?thesis
  proof (cases "stage_if (snd (run_stages s))")
    case (Inl e)
    with False show ?thesis by (simp add: step_raise run_stages_data_memory)
  next
    case (Inr p)
    obtain f s1 where p: "p = (f, s1)" by (cases p)
    from step_normal(2)[OF False Inr[unfolded p]] False show ?thesis
      by (simp add: run_stages_data_memory)
  qed
qed

lemma word16_inv_step:
  assumes "word16_inv s"
  shows "word16_inv (snd (step s))"
proof (cases "halted s")
  case True
  with assms show ?thesis by (simp add: step_halted)
next
  case False
  from assms have r: "list_all (\<lambda>v. 0 \<le> v \<and> v \<le> 65535) (registers s)"
    and m: "\<And>a v. data_memory s a = Some v \<Longrightarrow> 0 \<le> v \<and> v \<le> 65535"
    by (simp_all add: word16_inv_def)
  have "list_all (\<lambda>v. 0 \<le> v \<and> v \<le> 65535) (registers (snd (step s)))"
    using False stage_wb_regs16[OF r] by (simp add: step_registers)
  moreover have "0 \<le> v \<and> v \<le> 65535" if "data_memory (snd (step s)) a = Some v" for a v
    using that False stage_mem_mem16[OF m] by (simp add: step_data_memory)
  ultimately show ?thesis
    unfolding word16_inv_def by blast
qed

lemma word16_inv_load: "word16_inv (load_program codes)"
  by (simp add: word16_inv_def load_program_def reset_def list_all_iff)

lemma word16_inv_steps: "word16_inv s \<Longrightarrow> word16_inv (steps n s)"
  by (induction n arbitrary: s) (simp_all add: word16_inv_step)

text \<open>
  Claim C10. From a freshly reset CPU with any program loaded, after any number of
  \<^verbatim>\<open>step()\<close> calls every register and every value stored in data memory lies in
  \<open>[0, 65535]\<close>: write-back and the store path mask with \<^verbatim>\<open>& 0xFFFF\<close>.
\<close>

theorem state_values_16_bit:
  "list_all (\<lambda>v. 0 \<le> v \<and> v \<le> 65535) (registers (steps n (load_program machine_codes)))
   \<and> (\<forall>a v. data_memory (steps n (load_program machine_codes)) a = Some v
          \<longrightarrow> 0 \<le> v \<and> v \<le> 65535)"
  using word16_inv_steps[OF word16_inv_load] unfolding word16_inv_def .

section \<open>Halting without a program, and the stall\<close>

lemma step_reset_halts:
  "fst (step (load_program [])) = Inr False \<and> halted (snd (step (load_program [])))"
  by (simp add: step_def run_stages_def clear_records_def commit_def record_history_def
      stage_wb_def stage_mem_def stage_ex_def execute_def stage_id_def stage_if_def decode_def
      load_program_def reset_def empty_if_id_def empty_id_ex_def empty_ex_mem_def
      empty_mem_wb_def truthy_def Let_def)

lemma steps_halted: "halted s \<Longrightarrow> steps n s = s"
  by (induction n) (simp_all add: step_halted)

text \<open>
  Claim C9. With no instructions loaded, the first \<^verbatim>\<open>step()\<close> returns \<^verbatim>\<open>False\<close> (not
  running) and sets \<^verbatim>\<open>halted\<close>; every later call returns \<^verbatim>\<open>False\<close> and leaves the whole
  state as the first call left it.
\<close>

theorem step_without_program:
  "fst (step (load_program [])) = Inr False
   \<and> halted (snd (step (load_program [])))
   \<and> steps (Suc n) (load_program []) = snd (step (load_program []))
   \<and> step (steps (Suc n) (load_program [])) = (Inr False, steps (Suc n) (load_program []))"
  using step_reset_halts by (simp add: steps_halted step_halted)

text \<open>
  Claim C6. On a cycle that returns normally and on which the stall flag is set when
  \<^verbatim>\<open>step()\<close> tests it (line 218, after decode has run), the new IF/ID latch is the old
  one, the new ID/EX latch is the bubble, PC is \<open>IF/ID.pc + 1\<close>, and the two later latches
  advance as on any other cycle, so exactly one bubble enters the pipeline.
\<close>

theorem stall_next_state:
  assumes "fst (step s) = Inr running" and "\<not> halted s" and "stall (snd (run_stages s))"
  shows "IF_ID (snd (step s)) = IF_ID s
    \<and> ID_EX (snd (step s)) = empty_id_ex
    \<and> pc (snd (step s)) = ii_pc (IF_ID s) + 1
    \<and> EX_MEM (snd (step s)) = new_EX_MEM (fst (run_stages s))
    \<and> MEM_WB (snd (step s)) = new_MEM_WB (fst (run_stages s))"
proof (cases "stage_if (snd (run_stages s))")
  case (Inl e)
  with assms(1,2) show ?thesis by (simp add: step_raise)
next
  case (Inr p)
  obtain f s1 where p: "p = (f, s1)" by (cases p)
  note n = step_normal[OF assms(2) Inr[unfolded p]]
  from assms(3) show ?thesis
    by (simp add: n)
qed

text \<open>The definitions unfolded to run one cycle on a concrete state.\<close>

lemmas run_defs = step_def run_stages_def clear_records_def commit_def record_history_def
  hazard_record_def stage_wb_def stage_mem_def stage_ex_def execute_def stage_id_def stage_if_def
  decode_def decode_r_def decode_j_def decode_i_def i_controls_def hazard_check_def
  load_use_reg_def load_branch_stall_def id_forward_def write_data_def alu_def alu_add_def
  alu_sub_def signed_def truthy_def load_program_def reset_def empty_if_id_def empty_id_ex_def
  empty_ex_mem_def empty_mem_wb_def py_int_def c_isspace_def py_isspace_def digit_value_def Let_def

theorem stall_next_state_witness:
  "fst (step load_use_state) = Inr True \<and> \<not> halted load_use_state
   \<and> stall (snd (run_stages load_use_state))
   \<and> IF_ID (snd (step load_use_state)) = IF_ID load_use_state
   \<and> ID_EX (snd (step load_use_state)) = empty_id_ex
   \<and> pc (snd (step load_use_state)) = 2"
proof -
  have h1: "fst (step load_use_state) = Inr True"
    by (simp add: load_use_state_def lw_in_id_ex_def run_defs)
  have h2: "\<not> halted load_use_state"
    by (simp add: load_use_state_def load_program_def reset_def)
  have h3: "stall (snd (run_stages load_use_state))"
    by (simp add: load_use_state_def lw_in_id_ex_def run_defs)
  have "ii_pc (IF_ID load_use_state) = 1"
    by (simp add: load_use_state_def)
  with stall_next_state[OF h1 h2 h3] h1 h2 h3 show ?thesis
    by simp
qed

section \<open>What the stages of one cycle compute\<close>

lemma stage_mem_fst_cong:
  assumes "data_memory s = data_memory t"
  shows "fst (stage_mem em s) = fst (stage_mem em t)"
  by (simp add: stage_mem_def assms Let_def)

lemma stage_ex_fst:
  "fst (stage_ex ie em mw s) = fst (execute ie em mw (forward_a s) (forward_b s))"
  by (simp add: stage_ex_def split: prod.splits)

lemma stage_id_stall:
  "stall (snd (stage_id i n s)) =
     (stall s \<or> snd (decode i n (registers s) (ID_EX s) (EX_MEM s) (MEM_WB s)) \<noteq> None)"
  by (simp add: stage_id_def split: prod.splits option.splits)

lemma run_stages_mem:
  "new_MEM_WB (fst (run_stages s)) = fst (stage_mem (EX_MEM s) s)"
proof -
  have "fst (stage_mem (EX_MEM s) (stage_wb (MEM_WB s) (clear_records s)))
      = fst (stage_mem (EX_MEM s) s)"
    by (rule stage_mem_fst_cong) (simp add: clear_records_def)
  then show ?thesis by (simp add: run_stages_def Let_def)
qed

lemma run_stages_ex:
  "new_EX_MEM (fst (run_stages s)) = fst (execute (ID_EX s) (EX_MEM s) (MEM_WB s) None None)"
  by (simp add: run_stages_def Let_def stage_ex_fst) (simp add: clear_records_def)

lemma run_stages_id:
  "(new_ID_EX (fst (run_stages s)), branch_taken (fst (run_stages s)),
      jump_target (fst (run_stages s))) =
     fst (decode (IF_ID s) (new_EX_MEM (fst (run_stages s)))
            (registers (stage_wb (MEM_WB s) s)) (ID_EX s) (EX_MEM s) (MEM_WB s))"
  by (simp add: run_stages_def Let_def stage_id_fst) (simp add: stage_wb_def clear_records_def)

lemma run_stages_stall:
  "stall (snd (run_stages s)) =
     (stall s \<or> snd (decode (IF_ID s) (new_EX_MEM (fst (run_stages s)))
            (registers (stage_wb (MEM_WB s) s)) (ID_EX s) (EX_MEM s) (MEM_WB s)) \<noteq> None)"
  by (simp add: run_stages_def Let_def stage_id_stall) (simp add: stage_wb_def clear_records_def)

lemma execute_result:
  assumes "ie_valid ie"
  shows "em_alu_result (fst (execute ie em mw None None)) =
           alu (ie_alu_op ie) (ex_operand em mw (ie_rs ie) (ie_rs_val ie))
             (ex_operand em mw (ie_rt ie) (ie_rt_val ie)) (ie_imm ie) (ie_rs_val ie)"
    and "em_valid (fst (execute ie em mw None None))"
    and "em_rd (fst (execute ie em mw None None)) = ie_rd ie"
    and "em_reg_write (fst (execute ie em mw None None)) = ie_reg_write ie"
    and "em_mem_read (fst (execute ie em mw None None)) = ie_mem_read ie"
    and "em_mem_write (fst (execute ie em mw None None)) = ie_mem_write ie"
    and "em_mem_to_reg (fst (execute ie em mw None None)) = ie_mem_to_reg ie"
    and "em_instruction (fst (execute ie em mw None None)) = ie_instruction ie"
  using assms by (simp_all add: execute_def ex_operand_def Let_def)


lemma stage_mem_result:
  assumes "em_valid em"
  shows "mw_valid (fst (stage_mem em s))"
    and "mw_rd (fst (stage_mem em s)) = em_rd em"
    and "mw_reg_write (fst (stage_mem em s)) = em_reg_write em"
    and "mw_mem_to_reg (fst (stage_mem em s)) = em_mem_to_reg em"
    and "mw_alu_result (fst (stage_mem em s)) = em_alu_result em"
    and "em_mem_read em \<Longrightarrow> mw_mem_data (fst (stage_mem em s)) =
           (case data_memory s (em_alu_result em AND 0xFFFF) of None \<Rightarrow> 0 | Some v \<Rightarrow> v)"
  using assms by (simp_all add: stage_mem_def empty_mem_wb_def Let_def)

lemma hazard_check_plain:
  "\<not> ie_branch r \<Longrightarrow> \<not> ie_jump r \<Longrightarrow>
   (hazard_check r ie em = None) = (load_use_reg r ie = None)"
  by (simp add: hazard_check_def load_branch_stall_def Let_def split: option.splits)

lemma decode_word:
  assumes "ii_valid i" "ii_instruction i = Some w" "py_int 16 w = Some code"
  shows "decode i n regs ie em mw =
    (let opcode = drop_bit 12 code AND 0xF;
         result = empty_id_ex\<lparr>ie_instruction := Some w, ie_pc := ii_pc i,
                    ie_valid := True, ie_opcode := opcode\<rparr>
     in if opcode = 0 then decode_r result code n regs ie em mw
        else if opcode = 9 \<or> opcode = 10 then decode_j result opcode code i ie em
        else decode_i result opcode code i n regs ie em mw)"
  by (simp add: decode_def assms)

lemma decode_reg_consumer:
  assumes "ii_valid i" "ii_instruction i = Some w" "py_int 16 w = Some code"
    "reg_consumer code r"
  shows "ie_valid (fst (fst (decode i n regs ie em mw)))
    \<and> ie_instruction (fst (fst (decode i n regs ie em mw))) = Some w
    \<and> ie_rs (fst (fst (decode i n regs ie em mw))) = drop_bit 9 code AND 0x7
    \<and> ie_rt (fst (fst (decode i n regs ie em mw))) = drop_bit 6 code AND 0x7
    \<and> \<not> ie_mem_write (fst (fst (decode i n regs ie em mw)))
    \<and> fst (snd (fst (decode i n regs ie em mw))) = False
    \<and> snd (snd (fst (decode i n regs ie em mw))) = None
    \<and> (snd (decode i n regs ie em mw) = None) =
           (load_use_reg (fst (fst (decode i n regs ie em mw))) ie = None)"
proof -
  let ?op = "drop_bit 12 code AND 0xF"
  from assms(4) consider (R) "?op = 0" "code AND 7 < 5"
    | (I) "?op = 1 \<or> ?op = 3 \<or> ?op = 4 \<or> ?op = 5 \<or> ?op = 8"
    unfolding reg_consumer_def Let_def by blast
  then show ?thesis
  proof cases
    case R
    then have f: "code AND 7 \<noteq> 5" by simp
    show ?thesis
      unfolding decode_word[OF assms(1-3)] Let_def
      by (simp add: R f decode_r_def Let_def hazard_check_plain empty_id_ex_def)
  next
    case I
    then have n0: "?op \<noteq> 0" "?op \<noteq> 9" "?op \<noteq> 10" "?op \<noteq> 6" "?op \<noteq> 7" "?op \<noteq> 2"
      by auto
    from I show ?thesis
      unfolding decode_word[OF assms(1-3)] Let_def
      by (elim disjE) (simp_all add: n0 decode_i_def i_controls_def Let_def hazard_check_plain
          empty_id_ex_def)
  qed
qed

lemma step_Inr:
  assumes "\<not> halted s" "fst (step s) = Inr b"
  obtains f x where "stage_if (snd (run_stages s)) = Inr (f, x)"
proof (cases "stage_if (snd (run_stages s))")
  case (Inl e)
  with assms show ?thesis by (simp add: step_raise)
next
  case (Inr p)
  then show ?thesis using that by (cases p) auto
qed

lemma step_normal_halted:
  assumes "\<not> halted s" "stage_if (snd (run_stages s)) = Inr (f, s1)"
  shows "halted (snd (step s)) =
     (\<not> ii_valid (IF_ID (snd (step s))) \<and> \<not> ie_valid (ID_EX (snd (step s)))
      \<and> \<not> em_valid (EX_MEM (snd (step s))) \<and> \<not> mw_valid (MEM_WB (snd (step s)))
      \<and> pc (snd (step s)) \<ge> int (length (instruction_memory s)))"
  using assms(1) stage_if_frame[OF assms(2)]
  by (simp add: step_def commit_def record_history_def Let_def assms(2))

lemma mask16_id: "0 \<le> (x::int) \<Longrightarrow> x \<le> 65535 \<Longrightarrow> x AND 0xFFFF = x"
proof -
  assume a: "0 \<le> x" "x \<le> 65535"
  have "x AND mask 16 = x"
    using a by (simp add: take_bit_int_eq_self flip: take_bit_eq_mask)
  then show ?thesis by (simp add: mask_eq_exp_minus_1)
qed

lemma stage_wb_writes:
  assumes "mw_valid mw" "mw_reg_write mw" "0 < mw_rd mw" "nat (mw_rd mw) < length (registers s)"
  shows "registers (stage_wb mw s) ! nat (mw_rd mw) = write_data mw AND 0xFFFF"
  using assms by (simp add: stage_wb_def write_data_def)

lemma reg_consumer_reads:
  "reg_consumer code r \<Longrightarrow> drop_bit 9 code AND 0x7 = r \<or> drop_bit 6 code AND 0x7 = r"
  unfolding reg_consumer_def Let_def by blast

section \<open>Indices the fetch accepts\<close>

lemma stage_if_total:
  assumes "- int (length (instruction_memory s)) \<le> pc s"
  shows "\<exists>f x. stage_if s = Inr (f, x) \<and> pc s \<le> pc x"
  using assms by (simp add: stage_if_def Let_def)

section \<open>Forwarding between ALU instructions\<close>

lemma alu_consumer_reg: "alu_consumer code r \<Longrightarrow> reg_consumer code r"
  unfolding alu_consumer_def reg_consumer_def Let_def by blast

lemma or16: "0 \<le> (a::int) \<Longrightarrow> a \<le> 65535 \<Longrightarrow> 0 \<le> b \<Longrightarrow> b \<le> 65535 \<Longrightarrow> a OR b \<le> 65535"
  using OR_upper[of a 16 b] by simp

lemma and16: "0 \<le> (a::int) \<Longrightarrow> a \<le> 65535 \<Longrightarrow> a AND b \<le> 65535"
  using AND_upper1[of a b] by simp

lemma alu_range:
  assumes "op \<in> {ADD, SUB, AND_op, OR_op, SLT, ADDI, SUBI, SLTI, ANDI}"
    and "0 \<le> a" "a \<le> 65535" "0 \<le> b" "b \<le> 65535"
  shows "0 \<le> alu op a b imm c \<and> alu op a b imm c \<le> 65535"
  using assms(1)
proof (elim insertE emptyE)
  assume "op = OR_op"
  then show ?thesis using assms(2-5) by (simp add: alu_def or16)
next
  assume "op = AND_op"
  then show ?thesis using assms(2-5) by (simp add: alu_def and16)
next
  assume "op = ANDI"
  then show ?thesis using assms(2-5) by (simp add: alu_def and16)
qed (simp_all add: alu_def alu_add_def alu_sub_def)

lemma ex_operand_range:
  assumes "0 \<le> em_alu_result em \<and> em_alu_result em \<le> 65535"
    "0 \<le> write_data mw \<and> write_data mw \<le> 65535" "0 \<le> c \<and> c \<le> 65535"
  shows "0 \<le> ex_operand em mw reg c" "ex_operand em mw reg c \<le> 65535"
  using assms by (simp_all add: ex_operand_def)


text \<open>
  Forwarding between two ALU-only instructions when every value in flight is a 16-bit word
  (\<open>operands16\<close>). Let a decoded ALU-only instruction P with destination \<open>r \<noteq> 0\<close> be in
  ID/EX and let IF/ID hold a word that decodes to an ALU-only instruction C reading \<open>r\<close>.
  Then the cycle does not stall; on the next cycle the execute stage computes C's result
  from operands selected with the priority EX/MEM-old, MEM/WB-old, value captured at decode
  (\<open>ex_operand\<close>), and the operand \<open>r\<close> is the ALU result of P held in EX/MEM; that
  result is the value register \<open>r\<close> holds once P has retired, one cycle later.
\<close>

lemma alu_forwarding_no_stall:
  assumes nh: "\<not> halted s" and ns: "\<not> stall s"
    and pa: "alu_only (ID_EX s)" and rd: "ie_rd (ID_EX s) = r" and r0: "0 < r" and r7: "r \<le> 7"
    and cv: "ii_valid (IF_ID s)" and cw: "ii_instruction (IF_ID s) = Some w"
    and cc: "py_int 16 w = Some code" and ca: "alu_consumer code r"
    and p0: "0 \<le> pc s"
    and len: "length (registers s) = 8"
    and o16: "operands16 s"
  shows "\<not> stall (snd (run_stages s))
    \<and> ie_valid (ID_EX (steps 1 s)) \<and> ie_instruction (ID_EX (steps 1 s)) = Some w
    \<and> (ie_rs (ID_EX (steps 1 s)) = r \<or> ie_rt (ID_EX (steps 1 s)) = r)
    \<and> em_valid (EX_MEM (steps 1 s))
    \<and> em_instruction (EX_MEM (steps 1 s)) = ie_instruction (ID_EX s)
    \<and> ex_operand (EX_MEM (steps 1 s)) (MEM_WB (steps 1 s)) r captured
         = em_alu_result (EX_MEM (steps 1 s))
    \<and> em_alu_result (EX_MEM (steps 2 s)) =
         alu (ie_alu_op (ID_EX (steps 1 s)))
           (ex_operand (EX_MEM (steps 1 s)) (MEM_WB (steps 1 s)) (ie_rs (ID_EX (steps 1 s)))
              (ie_rs_val (ID_EX (steps 1 s))))
           (ex_operand (EX_MEM (steps 1 s)) (MEM_WB (steps 1 s)) (ie_rt (ID_EX (steps 1 s)))
              (ie_rt_val (ID_EX (steps 1 s))))
           (ie_imm (ID_EX (steps 1 s))) (ie_rs_val (ID_EX (steps 1 s)))
    \<and> registers (steps 3 s) ! nat r = em_alu_result (EX_MEM (steps 1 s))"
proof -
  define s1 where "s1 = snd (step s)"
  define s2 where "s2 = snd (step s1)"
  define s3 where "s3 = snd (step s2)"
  have st: "steps 1 s = s1" "steps 2 s = s2" "steps 3 s = s3"
    by (simp_all add: s1_def s2_def s3_def eval_nat_numeral)
  note cr = alu_consumer_reg[OF ca]
  from pa have pv: "ie_valid (ID_EX s)" and pw: "ie_reg_write (ID_EX s)"
    and pr: "\<not> ie_mem_read (ID_EX s)" and pm: "\<not> ie_mem_to_reg (ID_EX s)"
    and pop: "ie_alu_op (ID_EX s) \<in> {ADD, SUB, AND_op, OR_op, SLT, ADDI, SUBI, SLTI, ANDI}"
    by (simp_all add: alu_only_def)
  \<comment> \<open>first cycle: C is decoded without a stall, P executes\<close>
  obtain f1 x1 where i1: "stage_if (snd (run_stages s)) = Inr (f1, x1)"
    and px1: "pc (snd (run_stages s)) \<le> pc x1"
    using p0 stage_if_total[of "snd (run_stages s)"] by auto
  note a = step_normal[OF nh i1]
  let ?d1 = "decode (IF_ID s) (new_EX_MEM (fst (run_stages s)))
            (registers (stage_wb (MEM_WB s) s)) (ID_EX s) (EX_MEM s) (MEM_WB s)"
  note d1 = decode_reg_consumer[OF cv cw cc cr, of "new_EX_MEM (fst (run_stages s))"
      "registers (stage_wb (MEM_WB s) s)" "ID_EX s" "EX_MEM s" "MEM_WB s"]
  have "load_use_reg (fst (fst ?d1)) (ID_EX s) = None"
    using pr by (simp add: load_use_reg_def)
  with d1 have "snd ?d1 = None" by simp
  then have nostall: "\<not> stall (snd (run_stages s))"
    using ns by (simp add: run_stages_stall)
  have id1: "ID_EX s1 = fst (fst ?d1)"
    using nostall run_stages_id[of s] by (simp add: s1_def a prod_eq_iff)
  have iv1: "ie_valid (ID_EX s1)" using d1 by (simp add: id1)
  have pc1: "0 \<le> pc s1"
    using nostall d1 run_stages_id[of s] px1 p0 by (simp add: s1_def a prod_eq_iff)
  have em1: "EX_MEM s1 = fst (execute (ID_EX s) (EX_MEM s) (MEM_WB s) None None)"
    by (simp add: s1_def a run_stages_ex)
  note e1 = execute_result[OF pv, of "EX_MEM s" "MEM_WB s"]
  have emf: "em_valid (EX_MEM s1)" "em_rd (EX_MEM s1) = r" "em_reg_write (EX_MEM s1)"
    "\<not> em_mem_to_reg (EX_MEM s1)" "em_instruction (EX_MEM s1) = ie_instruction (ID_EX s)"
    by (simp_all add: em1 e1 rd pw pm)
  have range1: "0 \<le> em_alu_result (EX_MEM s1) \<and> em_alu_result (EX_MEM s1) \<le> 65535"
    unfolding em1 e1(1)
    using o16 by (intro alu_range[OF pop] ex_operand_range) (simp_all add: operands16_def)
  have opr: "ex_operand (EX_MEM s1) (MEM_WB s1) r captured = em_alu_result (EX_MEM s1)"
    using r0 by (simp add: ex_operand_def emf)
  have nh1: "\<not> halted s1"
    using iv1 by (simp add: s1_def step_normal_halted[OF nh i1] id1[unfolded s1_def])
  have len1: "length (registers s1) = 8"
    using len nh by (simp add: s1_def step_registers stage_wb_length)
  \<comment> \<open>second cycle: C executes, P is in the memory stage\<close>
  obtain f2 x2 where i2: "stage_if (snd (run_stages s1)) = Inr (f2, x2)"
    using pc1 stage_if_total[of "snd (run_stages s1)"] by auto
  note b = step_normal[OF nh1 i2]
  have em2: "EX_MEM s2 = fst (execute (ID_EX s1) (EX_MEM s1) (MEM_WB s1) None None)"
    by (simp add: s2_def b run_stages_ex)
  have mw2: "MEM_WB s2 = fst (stage_mem (EX_MEM s1) s1)"
    by (simp add: s2_def b run_stages_mem)
  note m2 = stage_mem_result[OF emf(1), of s1]
  have mwf: "mw_valid (MEM_WB s2)" "mw_rd (MEM_WB s2) = r" "mw_reg_write (MEM_WB s2)"
    "\<not> mw_mem_to_reg (MEM_WB s2)" "mw_alu_result (MEM_WB s2) = em_alu_result (EX_MEM s1)"
    by (simp_all add: mw2 m2 emf)
  have nh2: "\<not> halted s2"
    using mwf(1) by (simp add: s2_def step_normal_halted[OF nh1 i2] mwf(1)[unfolded s2_def])
  have len2: "length (registers s2) = 8"
    using len1 nh1 by (simp add: s2_def step_registers stage_wb_length)
  have res2: "em_alu_result (EX_MEM s2) =
         alu (ie_alu_op (ID_EX s1))
           (ex_operand (EX_MEM s1) (MEM_WB s1) (ie_rs (ID_EX s1)) (ie_rs_val (ID_EX s1)))
           (ex_operand (EX_MEM s1) (MEM_WB s1) (ie_rt (ID_EX s1)) (ie_rt_val (ID_EX s1)))
           (ie_imm (ID_EX s1)) (ie_rs_val (ID_EX s1))"
    by (simp add: em2 execute_result(1)[OF iv1])
  \<comment> \<open>third cycle: P retires\<close>
  have regs3: "registers s3 ! nat r = em_alu_result (EX_MEM s1)"
  proof -
    have "registers s3 = registers (stage_wb (MEM_WB s2) s2)"
      using nh2 by (simp add: s3_def step_registers)
    moreover have "registers (stage_wb (MEM_WB s2) s2) ! nat (mw_rd (MEM_WB s2))
        = write_data (MEM_WB s2) AND 0xFFFF"
      using mwf r0 r7 len2 by (intro stage_wb_writes) simp_all
    ultimately show ?thesis
      using range1 by (simp add: mwf write_data_def mask16_id)
  qed
  have rds: "ie_rs (ID_EX s1) = r \<or> ie_rt (ID_EX s1) = r"
    using reg_consumer_reads[OF cr] d1 by (simp add: id1)
  show ?thesis
    unfolding st
    using nostall iv1 d1 rds emf opr res2 regs3
    by (simp add: id1)
qed

lemma alu_forwarding_no_stall_witness:
  "\<not> halted alu_use_state \<and> \<not> stall alu_use_state \<and> alu_only (ID_EX alu_use_state)
   \<and> ie_rd (ID_EX alu_use_state) = 1 \<and> ii_valid (IF_ID alu_use_state)
   \<and> ii_instruction (IF_ID alu_use_state) = Some ''0258''
   \<and> py_int 16 ''0258'' = Some 600 \<and> alu_consumer 600 1
   \<and> length (registers alu_use_state) = 8 \<and> operands16 alu_use_state
   \<and> \<not> stall (snd (run_stages alu_use_state))
   \<and> ex_operand (EX_MEM (steps 1 alu_use_state)) (MEM_WB (steps 1 alu_use_state)) 1 0
        = em_alu_result (EX_MEM (steps 1 alu_use_state))
   \<and> registers (steps 3 alu_use_state) ! 1 = em_alu_result (EX_MEM (steps 1 alu_use_state))"
proof -
  have h: "\<not> halted alu_use_state" "\<not> stall alu_use_state" "alu_only (ID_EX alu_use_state)"
    "ie_rd (ID_EX alu_use_state) = 1" "ii_valid (IF_ID alu_use_state)"
    "ii_instruction (IF_ID alu_use_state) = Some ''0258''"
    "0 \<le> pc alu_use_state" "length (registers alu_use_state) = 8" "operands16 alu_use_state"
    by (simp_all add: alu_use_state_def addi_in_id_ex_def alu_only_def operands16_def
        load_program_def reset_def empty_id_ex_def empty_ex_mem_def empty_mem_wb_def
        write_data_def)
  have c: "py_int 16 ''0258'' = Some 600"
    by (simp add: py_int_def c_isspace_def py_isspace_def digit_value_def)
  have r: "alu_consumer 600 1"
    by (simp add: alu_consumer_def)
  have "(0::int) < 1" "(1::int) \<le> 7" by simp_all
  from alu_forwarding_no_stall[OF h(1,2,3,4) this h(5,6) c r h(7,8,9), of 0] h c r
  show ?thesis by simp
qed

section \<open>Architectural agreement is preserved by a cycle\<close>

lemma stage_wb_registers_cong:
  "registers s = registers t \<Longrightarrow> registers (stage_wb mw s) = registers (stage_wb mw t)"
  by (simp add: stage_wb_def)

lemma stage_mem_snd_cong:
  assumes "data_memory s = data_memory t"
  shows "data_memory (snd (stage_mem em s)) = data_memory (snd (stage_mem em t))"
  by (simp add: stage_mem_def assms Let_def)

lemma stage_mem_warning_cong:
  assumes "data_memory s = data_memory t" "memory_warning s = memory_warning t"
  shows "memory_warning (snd (stage_mem em s)) = memory_warning (snd (stage_mem em t))"
  by (simp add: stage_mem_def assms Let_def)

lemma run_stages_forward:
  "forward_a (snd (run_stages s)) = fst (snd (execute (ID_EX s) (EX_MEM s) (MEM_WB s) None None))"
  "forward_b (snd (run_stages s)) = snd (snd (execute (ID_EX s) (EX_MEM s) (MEM_WB s) None None))"
  by (simp_all add: run_stages_def Let_def stage_ex_def clear_records_def split: prod.splits)

lemma run_stages_stall_info:
  "stall_info (snd (run_stages s)) =
     snd (decode (IF_ID s) (new_EX_MEM (fst (run_stages s)))
            (registers (stage_wb (MEM_WB s) s)) (ID_EX s) (EX_MEM s) (MEM_WB s))"
  by (simp add: run_stages_def Let_def stage_id_def stage_ex_fst split: prod.splits option.splits)
     (simp add: stage_wb_def clear_records_def)

lemma run_stages_memory_warning:
  "memory_warning (snd (run_stages s)) =
     memory_warning (snd (stage_mem (EX_MEM s) (s\<lparr>memory_warning := None\<rparr>)))"
proof -
  have "memory_warning (snd (stage_mem (EX_MEM s) (stage_wb (MEM_WB s) (clear_records s))))
      = memory_warning (snd (stage_mem (EX_MEM s) (s\<lparr>memory_warning := None\<rparr>)))"
    by (rule stage_mem_warning_cong) (simp_all add: clear_records_def)
  then show ?thesis by (simp add: run_stages_def Let_def)
qed

lemma run_stages_cong:
  assumes "arch_eq s t"
  shows "fst (run_stages s) = fst (run_stages t)"
    and "arch_eq (snd (run_stages s)) (snd (run_stages t))"
    and "obs_eq (snd (run_stages s)) (snd (run_stages t))"
proof -
  from assms have e: "pc s = pc t" "registers s = registers t"
    "instruction_memory s = instruction_memory t" "data_memory s = data_memory t"
    "cycle s = cycle t" "IF_ID s = IF_ID t" "ID_EX s = ID_EX t" "EX_MEM s = EX_MEM t"
    "MEM_WB s = MEM_WB t" "stall s = stall t" "halted s = halted t"
    "flush_count s = flush_count t"
    by (simp_all add: arch_eq_def)
  have m: "fst (stage_mem (EX_MEM t) s) = fst (stage_mem (EX_MEM t) t)"
    by (rule stage_mem_fst_cong) (rule e)
  have w: "registers (stage_wb (MEM_WB t) s) = registers (stage_wb (MEM_WB t) t)"
    by (rule stage_wb_registers_cong) (rule e)
  have x: "new_EX_MEM (fst (run_stages s)) = new_EX_MEM (fst (run_stages t))"
    by (simp add: run_stages_ex e)
  have d: "decode (IF_ID s) (new_EX_MEM (fst (run_stages s)))
            (registers (stage_wb (MEM_WB s) s)) (ID_EX s) (EX_MEM s) (MEM_WB s)
      = decode (IF_ID t) (new_EX_MEM (fst (run_stages t)))
            (registers (stage_wb (MEM_WB t) t)) (ID_EX t) (EX_MEM t) (MEM_WB t)"
    by (simp add: x e w)
  have i: "(new_ID_EX (fst (run_stages s)), branch_taken (fst (run_stages s)),
      jump_target (fst (run_stages s))) = (new_ID_EX (fst (run_stages t)),
      branch_taken (fst (run_stages t)), jump_target (fst (run_stages t)))"
    unfolding run_stages_id d ..
  show "fst (run_stages s) = fst (run_stages t)"
    using i x by (intro stage_out.equality) (simp_all add: run_stages_mem e m)
  have dm: "data_memory (snd (stage_mem (EX_MEM t) s)) = data_memory (snd (stage_mem (EX_MEM t) t))"
    by (rule stage_mem_snd_cong) (rule e)
  have st: "stall (snd (run_stages s)) = stall (snd (run_stages t))"
    unfolding run_stages_stall d by (simp add: e)
  have si: "stall_info (snd (run_stages s)) = stall_info (snd (run_stages t))"
    unfolding run_stages_stall_info d ..
  show "arch_eq (snd (run_stages s)) (snd (run_stages t))"
    unfolding arch_eq_def
    by (simp add: e run_stages_registers w run_stages_data_memory dm st)
  have mw: "memory_warning (snd (stage_mem (EX_MEM t) (s\<lparr>memory_warning := None\<rparr>)))
      = memory_warning (snd (stage_mem (EX_MEM t) (t\<lparr>memory_warning := None\<rparr>)))"
    by (rule stage_mem_warning_cong) (simp_all add: e)
  show "obs_eq (snd (run_stages s)) (snd (run_stages t))"
    unfolding obs_eq_def
    by (simp add: run_stages_forward run_stages_memory_warning e mw si)
qed


lemma stage_if_cong:
  assumes "pc s = pc t" "instruction_memory s = instruction_memory t"
  shows "(stage_if s = Inl IndexError \<and> stage_if t = Inl IndexError)
    \<or> (\<exists>f p. stage_if s = Inr (f, s\<lparr>pc := p\<rparr>) \<and> stage_if t = Inr (f, t\<lparr>pc := p\<rparr>))"
proof (cases "pc t < int (length (instruction_memory t))")
  case True
  then show ?thesis by (auto simp: stage_if_def Let_def assms)
next
  case False
  then have "stage_if s = Inr (empty_if_id, s\<lparr>pc := pc t\<rparr>)"
    "stage_if t = Inr (empty_if_id, t\<lparr>pc := pc t\<rparr>)"
    by (simp_all add: stage_if_def Let_def assms flip: assms(1))
  then show ?thesis by blast
qed

lemma finish_cong:
  assumes "arch_eq S T" "obs_eq S T"
  shows "fst (finish out f (S\<lparr>pc := p\<rparr>)) = fst (finish out f (T\<lparr>pc := p\<rparr>))"
    and "arch_eq (snd (finish out f (S\<lparr>pc := p\<rparr>))) (snd (finish out f (T\<lparr>pc := p\<rparr>)))"
    and "obs_eq (snd (finish out f (S\<lparr>pc := p\<rparr>))) (snd (finish out f (T\<lparr>pc := p\<rparr>)))"
    and "if_id_was_held (snd (finish out f (S\<lparr>pc := p\<rparr>)))
          = if_id_was_held (snd (finish out f (T\<lparr>pc := p\<rparr>)))"
proof -
  from assms have e: "registers S = registers T"
    "instruction_memory S = instruction_memory T" "data_memory S = data_memory T"
    "cycle S = cycle T" "IF_ID S = IF_ID T" "ID_EX S = ID_EX T" "EX_MEM S = EX_MEM T"
    "MEM_WB S = MEM_WB T" "stall S = stall T" "halted S = halted T"
    "flush_count S = flush_count T" "forward_a S = forward_a T" "forward_b S = forward_b T"
    "stall_info S = stall_info T" "memory_warning S = memory_warning T"
    "control_hazard S = control_hazard T" "flush_occurred S = flush_occurred T"
    by (simp_all add: arch_eq_def obs_eq_def)
  show "fst (finish out f (S\<lparr>pc := p\<rparr>)) = fst (finish out f (T\<lparr>pc := p\<rparr>))"
    by (simp add: finish_def commit_def record_history_def Let_def e cong: option.case_cong)
  show "arch_eq (snd (finish out f (S\<lparr>pc := p\<rparr>))) (snd (finish out f (T\<lparr>pc := p\<rparr>)))"
    by (simp add: arch_eq_def finish_def commit_def record_history_def Let_def e cong: option.case_cong)
  show "obs_eq (snd (finish out f (S\<lparr>pc := p\<rparr>))) (snd (finish out f (T\<lparr>pc := p\<rparr>)))"
    by (simp add: obs_eq_def finish_def commit_def record_history_def Let_def e cong: option.case_cong)
  show "if_id_was_held (snd (finish out f (S\<lparr>pc := p\<rparr>)))
          = if_id_was_held (snd (finish out f (T\<lparr>pc := p\<rparr>)))"
    by (simp add: finish_def commit_def record_history_def Let_def e cong: option.case_cong)
qed

lemma step_finish:
  assumes "\<not> halted s" "stage_if (snd (run_stages s)) = Inr (f, x)"
  shows "step s = (Inr (fst (finish (fst (run_stages s)) f x)),
                   snd (finish (fst (run_stages s)) f x))"
  using assms by (simp add: step_def finish_def Let_def)


lemma arch_eq_refl: "arch_eq s s"
  by (simp add: arch_eq_def)

lemma arch_eq_sym: "arch_eq s t \<Longrightarrow> arch_eq t s"
  by (simp add: arch_eq_def)

lemma arch_eq_trans: "arch_eq s t \<Longrightarrow> arch_eq t u \<Longrightarrow> arch_eq s u"
  by (simp add: arch_eq_def)

lemma step_cong:
  assumes "arch_eq s t"
  shows "fst (step s) = fst (step t)" and "arch_eq (snd (step s)) (snd (step t))"
proof -
  from assms have h: "halted s = halted t" by (simp add: arch_eq_def)
  have "fst (step s) = fst (step t) \<and> arch_eq (snd (step s)) (snd (step t))"
  proof (cases "halted s")
    case True
    with h assms show ?thesis by (simp add: step_halted)
  next
    case False
    with h have nh: "\<not> halted s" "\<not> halted t" by simp_all
    note r = run_stages_cong[OF assms]
    from r(2) have p: "pc (snd (run_stages s)) = pc (snd (run_stages t))"
      "instruction_memory (snd (run_stages s)) = instruction_memory (snd (run_stages t))"
      by (simp_all add: arch_eq_def)
    from stage_if_cong[OF p] show ?thesis
    proof (elim disjE conjE exE)
      assume "stage_if (snd (run_stages s)) = Inl IndexError"
        "stage_if (snd (run_stages t)) = Inl IndexError"
      with nh r(2) show ?thesis by (simp add: step_raise)
    next
      fix f q
      assume a: "stage_if (snd (run_stages s)) = Inr (f, snd (run_stages s)\<lparr>pc := q\<rparr>)"
        "stage_if (snd (run_stages t)) = Inr (f, snd (run_stages t)\<lparr>pc := q\<rparr>)"
      note c = finish_cong[OF r(2) r(3), of "fst (run_stages t)" f q]
      show ?thesis
        unfolding step_finish[OF nh(1) a(1)] step_finish[OF nh(2) a(2)] r(1)
        using c(1,2) by simp
    qed
  qed
  then show "fst (step s) = fst (step t)" and "arch_eq (snd (step s)) (snd (step t))"
    by simp_all
qed

lemma steps_Suc_right: "steps (Suc n) s = snd (step (steps n s))"
  by (induction n arbitrary: s) simp_all

lemma steps_cong: "arch_eq s t \<Longrightarrow> arch_eq (steps n s) (steps n t)"
  by (induction n arbitrary: s t) (simp_all add: step_cong)

lemma steps_next:
  assumes "arch_eq (steps n s) a" "arch_eq (snd (step a)) b" "m = Suc n"
  shows "arch_eq (steps m s) b"
  unfolding assms(3) steps_Suc_right
  using step_cong(2)[OF assms(1)] assms(2) by (rule arch_eq_trans)

section \<open>Tables for the digit characters\<close>

lemma digit_char_table:
  "digit_char 0 = CHR ''0''" "digit_char 1 = CHR ''1''" "digit_char 2 = CHR ''2''"
  "digit_char 3 = CHR ''3''" "digit_char 4 = CHR ''4''" "digit_char 5 = CHR ''5''"
  "digit_char 6 = CHR ''6''" "digit_char 7 = CHR ''7''" "digit_char 8 = CHR ''8''"
  "digit_char 9 = CHR ''9''" "digit_char (Suc 0) = CHR ''1''"
  by code_simp+

lemma hex_char_table:
  "hex_char 0 = CHR ''0''" "hex_char 1 = CHR ''1''" "hex_char 2 = CHR ''2''"
  "hex_char 3 = CHR ''3''" "hex_char 4 = CHR ''4''" "hex_char 5 = CHR ''5''"
  "hex_char 6 = CHR ''6''" "hex_char 7 = CHR ''7''" "hex_char 8 = CHR ''8''"
  "hex_char 9 = CHR ''9''" "hex_char 10 = CHR ''A''" "hex_char 11 = CHR ''B''"
  "hex_char 12 = CHR ''C''" "hex_char 13 = CHR ''D''" "hex_char 14 = CHR ''E''"
  "hex_char 15 = CHR ''F''" "hex_char (Suc 0) = CHR ''1''"
  by code_simp+

lemmas dis_defs = disassemble_def py_int_def c_isspace_def digit_value_def opcode_to_instr_def
  funct_to_instr_def str_int_def str_nat.simps digit_char_table Let_def

lemma dis_0E0B: "disassemble ''0E0B'' = ''OR $r1, $r7, $r0''"
  by (simp add: dis_defs)

lemma dis_52BB: "disassemble ''52BB'' = ''SLTI $r2, $r1, -5''"
  by (simp add: dis_defs)

section \<open>Forwarding of a value that write-back would mask\<close>

lemma t7_step_1: "arch_eq (snd (step t7_0)) t7_1"
  by (simp add: arch_eq_def machine_def negative_pc_program_def t7_0_def t7_1_def run_defs)

lemma t7_step_2: "arch_eq (snd (step t7_1)) t7_2"
  by (simp add: arch_eq_def machine_def negative_pc_program_def t7_1_def t7_2_def run_defs)

lemma t7_step_3: "arch_eq (snd (step t7_2)) t7_3"
  by (simp add: arch_eq_def machine_def negative_pc_program_def t7_2_def t7_3_def run_defs)

lemma t7_step_4: "arch_eq (snd (step t7_3)) t7_4"
  by (simp add: arch_eq_def machine_def negative_pc_program_def t7_3_def t7_4_def run_defs)

lemma t7_step_5: "arch_eq (snd (step t7_4)) t7_5"
  by (simp add: arch_eq_def machine_def negative_pc_program_def t7_4_def t7_5_def run_defs)

lemma t7_step_6: "arch_eq (snd (step t7_5)) t7_6"
  by (simp add: arch_eq_def machine_def negative_pc_program_def t7_5_def t7_6_def run_defs)

lemma t7_step_7: "arch_eq (snd (step t7_6)) t7_7"
  by (simp add: arch_eq_def machine_def negative_pc_program_def t7_6_def t7_7_def run_defs)

lemma t7_step_8: "arch_eq (snd (step t7_7)) t7_8"
  by (simp add: arch_eq_def machine_def negative_pc_program_def t7_7_def t7_8_def run_defs)

lemma t7_step_9: "arch_eq (snd (step t7_8)) t7_9"
  by (simp add: arch_eq_def machine_def negative_pc_program_def t7_8_def t7_9_def run_defs)

lemma t7_step_10: "arch_eq (snd (step t7_9)) t7_10"
  by (simp add: arch_eq_def machine_def negative_pc_program_def t7_9_def t7_10_def run_defs)

lemma t7_at_0: "arch_eq (steps 0 (load_program negative_pc_program)) t7_0"
  by (simp add: arch_eq_def machine_def t7_0_def load_program_def reset_def eval_nat_numeral)

lemma t7_at_1: "arch_eq (steps 1 (load_program negative_pc_program)) t7_1"
  by (rule steps_next[OF t7_at_0 t7_step_1]) simp

lemma t7_at_2: "arch_eq (steps 2 (load_program negative_pc_program)) t7_2"
  by (rule steps_next[OF t7_at_1 t7_step_2]) simp

lemma t7_at_3: "arch_eq (steps 3 (load_program negative_pc_program)) t7_3"
  by (rule steps_next[OF t7_at_2 t7_step_3]) simp

lemma t7_at_4: "arch_eq (steps 4 (load_program negative_pc_program)) t7_4"
  by (rule steps_next[OF t7_at_3 t7_step_4]) simp

lemma t7_at_5: "arch_eq (steps 5 (load_program negative_pc_program)) t7_5"
  by (rule steps_next[OF t7_at_4 t7_step_5]) simp

lemma t7_at_6: "arch_eq (steps 6 (load_program negative_pc_program)) t7_6"
  by (rule steps_next[OF t7_at_5 t7_step_6]) simp

lemma t7_at_7: "arch_eq (steps 7 (load_program negative_pc_program)) t7_7"
  by (rule steps_next[OF t7_at_6 t7_step_7]) simp

lemma t7_at_8: "arch_eq (steps 8 (load_program negative_pc_program)) t7_8"
  by (rule steps_next[OF t7_at_7 t7_step_8]) simp

lemma t7_at_9: "arch_eq (steps 9 (load_program negative_pc_program)) t7_9"
  by (rule steps_next[OF t7_at_8 t7_step_9]) simp

lemma t7_at_10: "arch_eq (steps 10 (load_program negative_pc_program)) t7_10"
  by (rule steps_next[OF t7_at_9 t7_step_10]) simp

lemma t7_6_no_stall: "\<not> stall (snd (run_stages t7_6))"
  by (simp add: machine_def negative_pc_program_def t7_6_def run_defs)

text \<open>
  Claim C7 on the program 603D, 0E0B, 52BB, A001, 0007. After six cycles the producer
  \<^verbatim>\<open>OR $r1, $r7, $r0\<close> is in ID/EX and the consumer \<^verbatim>\<open>SLTI $r2, $r1, -5\<close> in IF/ID, both
  ALU-only, and the cycle does not stall. Two cycles later the consumer has executed with
  the forwarded value of \<open>r1\<close> and its result is 1. Once the producer has retired (cycle
  9) register 1 reads 65535, for which SLTI gives 0; register 2 nevertheless ends as 1.
  The forwarded value is the producer's result \<open>-1\<close>, which write-back masks to 16 bits
  and the forwarding path does not.
\<close>

theorem forwarded_value_not_masked:
  "alu_only (ID_EX (steps 6 (load_program negative_pc_program)))
   \<and> ie_instruction (ID_EX (steps 6 (load_program negative_pc_program))) = Some ''0E0B''
   \<and> disassemble ''0E0B'' = ''OR $r1, $r7, $r0''
   \<and> ie_rd (ID_EX (steps 6 (load_program negative_pc_program))) = 1
   \<and> ii_valid (IF_ID (steps 6 (load_program negative_pc_program)))
   \<and> ii_instruction (IF_ID (steps 6 (load_program negative_pc_program))) = Some ''52BB''
   \<and> disassemble ''52BB'' = ''SLTI $r2, $r1, -5''
   \<and> py_int 16 ''52BB'' = Some 0x52BB \<and> alu_consumer 0x52BB 1
   \<and> \<not> stall (snd (run_stages (steps 6 (load_program negative_pc_program))))
   \<and> em_instruction (EX_MEM (steps 7 (load_program negative_pc_program))) = Some ''0E0B''
   \<and> em_alu_result (EX_MEM (steps 7 (load_program negative_pc_program))) = - 1
   \<and> em_instruction (EX_MEM (steps 8 (load_program negative_pc_program))) = Some ''52BB''
   \<and> em_alu_result (EX_MEM (steps 8 (load_program negative_pc_program))) = 1
   \<and> registers (steps 9 (load_program negative_pc_program)) ! 1 = 65535
   \<and> alu SLTI (registers (steps 9 (load_program negative_pc_program)) ! 1) 0 (- 5) 0 = 0
   \<and> registers (steps 10 (load_program negative_pc_program)) ! 2 = 1"
proof -
  let ?s = "steps 6 (load_program negative_pc_program)"
  have s6: "ID_EX ?s = ID_EX t7_6" "IF_ID ?s = IF_ID t7_6"
    using t7_at_6 by (simp_all add: arch_eq_def)
  have a: "alu_only (ID_EX ?s)" "ie_instruction (ID_EX ?s) = Some ''0E0B''"
    "ie_rd (ID_EX ?s) = 1" "ii_valid (IF_ID ?s)" "ii_instruction (IF_ID ?s) = Some ''52BB''"
    unfolding s6 by (simp_all add: t7_6_def machine_def alu_only_def empty_id_ex_def empty_if_id_def)
  have c: "py_int 16 ''52BB'' = Some 0x52BB"
    by (simp add: py_int_def c_isspace_def digit_value_def)
  have d: "alu_consumer 0x52BB 1"
    by (simp add: alu_consumer_def)
  have "stall (snd (run_stages ?s)) = stall (snd (run_stages t7_6))"
    using run_stages_cong(2)[OF t7_at_6] by (simp add: arch_eq_def)
  then have n: "\<not> stall (snd (run_stages ?s))"
    by (simp add: t7_6_no_stall)
  have e7: "em_instruction (EX_MEM (steps 7 (load_program negative_pc_program))) = Some ''0E0B''"
    "em_alu_result (EX_MEM (steps 7 (load_program negative_pc_program))) = - 1"
    using t7_at_7 by (simp_all add: arch_eq_def t7_7_def machine_def empty_ex_mem_def)
  have e8: "em_instruction (EX_MEM (steps 8 (load_program negative_pc_program))) = Some ''52BB''"
    "em_alu_result (EX_MEM (steps 8 (load_program negative_pc_program))) = 1"
    using t7_at_8 by (simp_all add: arch_eq_def t7_8_def machine_def empty_ex_mem_def)
  have r9: "registers (steps 9 (load_program negative_pc_program)) ! 1 = 65535"
    using t7_at_9 by (simp add: arch_eq_def t7_9_def machine_def)
  have r: "alu SLTI 65535 0 (- 5) 0 = 0"
    by (simp add: alu_def signed_def)
  have r10: "registers (steps 10 (load_program negative_pc_program)) ! 2 = 1"
    using t7_at_10 by (simp add: arch_eq_def t7_10_def machine_def)
  show ?thesis
    using a c d n e7 e8 r9 r r10 dis_0E0B dis_52BB by simp
qed

section \<open>The load-use stall in the states a program reaches\<close>





lemma steps_instruction_memory:
  "instruction_memory (steps n s) = instruction_memory s"
proof (induction n arbitrary: s)
  case 0 show ?case by simp
next
  case (Suc n)
  have "instruction_memory (snd (step s)) = instruction_memory s"
  proof (cases "halted s")
    case True then show ?thesis by (simp add: step_halted)
  next
    case False
    show ?thesis
    proof (cases "stage_if (snd (run_stages s))")
      case (Inl e)
      with False show ?thesis by (simp add: step_raise)
    next
      case (Inr p)
      obtain f s1 where p: "p = (f, s1)" by (cases p)
      from step_normal(3)[OF False Inr[unfolded p]] show ?thesis .
    qed
  qed
  with Suc show ?case by simp
qed














end
